theory Spec2Isabelle
  imports Main "HOL-Library.Word"
begin

section \<open>Data model of \<^verbatim>\<open>enzyme_call.cc\<close>\<close>

text \<open>
  \<^verbatim>\<open>int64_t\<close> and \<^verbatim>\<open>uint64_t\<close> are 64-bit words: \<open>+\<close> wraps around, \<open>sint\<close> reads
  the signed value. C++ leaves the overflow of a signed increment undefined; the model
  takes the two's complement wrap-around that the compiled increment performs. The
  entry address of a kernel is stored in a \<^verbatim>\<open>uint64_t\<close> and cast to a function pointer,
  so pointers are 64 bits wide and one slot of a \<^verbatim>\<open>void**\<close> array takes 8 bytes.
\<close>

type_synonym int64 = "64 word"
type_synonym uint64 = "64 word"
type_synonym ptr = "64 word"

text \<open>The non-static members of \<^verbatim>\<open>class CpuKernel\<close> (lines 57-59).\<close>

record CpuKernel =
  "identifier" :: int64
  out_shapes :: "int64 list list"
  addr :: uint64

text \<open>The constructor (lines 61-65) copies its three arguments into the members.\<close>

definition CpuKernel_new :: "int64 \<Rightarrow> int64 list list \<Rightarrow> uint64 \<Rightarrow> CpuKernel" where
  "CpuKernel_new ident oshapes entry =
     \<lparr>identifier = ident, out_shapes = oshapes, addr = entry\<rparr>"

text \<open>
  The static members (lines 54-55 and 172-173; the mutex is left out, the model is
  sequential): the registry \<^verbatim>\<open>kernels\<close>, the counter \<^verbatim>\<open>last_identifier\<close>, the data
  layout \<^verbatim>\<open>DL\<close> (kept as the module it was read from) and the \<^verbatim>\<open>JIT\<close>, absent while
  the pointer is null. The types of modules \<open>'m\<close> and of the just-in-time environment
  \<open>'j\<close> belong to LLVM and stay abstract.
\<close>

record ('m, 'j) statics =
  kernels :: "int64 \<rightharpoonup> CpuKernel"
  last_identifier :: int64
  DL :: "'m option"
  JIT :: "'j option"

text \<open>The initial values of the static members (lines 177-182).\<close>

definition init_statics :: "('m, 'j) statics" where
  "init_statics = \<lparr>kernels = Map.empty, last_identifier = 1, DL = None, JIT = None\<rparr>"

text \<open>
  What \<^verbatim>\<open>create\<close> can end with besides returning: a \<^verbatim>\<open>pybind11::value_error\<close> with its
  message, or an index past the end of an \<^verbatim>\<open>llvm::ArrayRef\<close> (its \<^verbatim>\<open>operator[]\<close>
  asserts \<^verbatim>\<open>Index < Length\<close>).
\<close>

datatype error = value_error string | invalid_index

text \<open>
  The external collaborators of \<^verbatim>\<open>create\<close>, taken as parameters: the compiler
  \<^verbatim>\<open>GetLLVMFromJob\<close> of \<^verbatim>\<open>clang_compile.h\<close> (path, text, C++ flag, arguments; no module
  on failure), and the LLVM ORC operations on the just-in-time environment. Each ORC
  operation returns the environment as it leaves it. \<open>LLJITBuilder_create\<close> stands for
  the builder chain of lines 119-122, which reads the data layout and the target triple
  of the module; a linkage scope (\<^verbatim>\<open>JITDylib\<close>) is known by its name, and
  \<^verbatim>\<open>createJITDylib\<close> is taken to succeed, as line 131 uses its result unchecked.
\<close>

record ('a, 'm, 'j) toolchain =
  GetLLVMFromJob :: "string \<Rightarrow> string \<Rightarrow> bool \<Rightarrow> 'a \<Rightarrow> 'm option"
  LLJITBuilder_create :: "'m \<Rightarrow> 'j option"
  createJITDylib :: "'j \<Rightarrow> string \<Rightarrow> 'j"
  addIRModule :: "'j \<Rightarrow> string \<Rightarrow> 'm \<Rightarrow> 'j \<times> bool"
  JIT_lookup :: "'j \<Rightarrow> string \<Rightarrow> string \<Rightarrow> 'j \<times> uint64 option"

section \<open>Decimal text\<close>

text \<open>
  \<^verbatim>\<open>std::to_string\<close> on an \<^verbatim>\<open>int64_t\<close> and \<^verbatim>\<open>operator<<\<close> on a \<^verbatim>\<open>size_t\<close> write a
  number in decimal, with a leading minus sign when it is negative.
\<close>

definition digit :: "nat \<Rightarrow> char" where
  "digit d = ''0123456789'' ! d"

fun decimal :: "nat \<Rightarrow> string" where
  "decimal n = (if n < 10 then [digit n] else decimal (n div 10) @ [digit (n mod 10)])"

declare decimal.simps [simp del]

definition to_string :: "int64 \<Rightarrow> string" where
  "to_string v =
     (if sint v < 0 then CHR ''-'' # decimal (nat (- sint v)) else decimal (nat (sint v)))"

section \<open>Source synthesis\<close>

text \<open>\<^verbatim>\<open>make_type\<close> (lines 67-73); \<open>shape_loop\<close> is its loop over the extents.\<close>

fun shape_loop :: "int64 list \<Rightarrow> string \<Rightarrow> string" where
  "shape_loop [] s = s"
| "shape_loop (v # shape) s = shape_loop shape (s @ '', '' @ to_string v)"

definition make_type :: "string \<Rightarrow> int64 list \<Rightarrow> bool \<Rightarrow> string" where
  "make_type typenam shape constv =
     shape_loop shape ((if constv then ''const '' else '''') @ ''enzyme::tensor<'' @ typenam)
       @ ''>''"

text \<open>
  The four loops of \<^verbatim>\<open>create\<close> that write the body of \<^verbatim>\<open>entry\<close> to the stream
  \<^verbatim>\<open>ss\<close>, each with its index \<open>i\<close> and the text written so far. The first two
  (lines 92-94 and 95-97) index the name arrays, which may be shorter than the shape
  arrays; the last two (lines 100-104 and 105-109) carry the flag \<^verbatim>\<open>comma\<close>.
\<close>

function out_decl_loop :: "nat \<Rightarrow> int64 list list \<Rightarrow> string list \<Rightarrow> string \<Rightarrow> string option" where
  "out_decl_loop i oshapes onames ss =
     (if i < length oshapes then
        if i < length onames then
          out_decl_loop (Suc i) oshapes onames
            (ss @ '' '' @ make_type (onames ! i) (oshapes ! i) False @ ''& out_'' @ decimal i
               @ '' = '' @ ''*('' @ make_type (onames ! i) (oshapes ! i) False
               @ ''*)outs['' @ decimal i @ ''];\<newline>'')
        else None
      else Some ss)"
  by pat_completeness auto
termination
  by (relation "measure (\<lambda>(i, oshapes, onames, ss). length oshapes - i)") auto

function in_decl_loop :: "nat \<Rightarrow> int64 list list \<Rightarrow> string list \<Rightarrow> string \<Rightarrow> string option" where
  "in_decl_loop i ishapes inames ss =
     (if i < length ishapes then
        if i < length inames then
          in_decl_loop (Suc i) ishapes inames
            (ss @ '' '' @ make_type (inames ! i) (ishapes ! i) True @ ''& in_'' @ decimal i
               @ '' = '' @ ''*('' @ make_type (inames ! i) (ishapes ! i) True
               @ ''*)ins['' @ decimal i @ ''];\<newline>'')
        else None
      else Some ss)"
  by pat_completeness auto
termination
  by (relation "measure (\<lambda>(i, ishapes, inames, ss). length ishapes - i)") auto

function out_arg_loop :: "nat \<Rightarrow> int64 list list \<Rightarrow> bool \<times> string \<Rightarrow> bool \<times> string" where
  "out_arg_loop i oshapes (comma, ss) =
     (if i < length oshapes then
        out_arg_loop (Suc i) oshapes
          (True, (if comma then ss @ '', '' else ss) @ ''out_'' @ decimal i)
      else (comma, ss))"
  by pat_completeness auto
termination
  by (relation "measure (\<lambda>(i, oshapes, c). length oshapes - i)") auto

function in_arg_loop :: "nat \<Rightarrow> int64 list list \<Rightarrow> bool \<times> string \<Rightarrow> bool \<times> string" where
  "in_arg_loop i ishapes (comma, ss) =
     (if i < length ishapes then
        in_arg_loop (Suc i) ishapes
          (True, (if comma then ss @ '', '' else ss) @ ''in_'' @ decimal i)
      else (comma, ss))"
  by pat_completeness auto
termination
  by (relation "measure (\<lambda>(i, ishapes, c). length ishapes - i)") auto

declare out_decl_loop.simps [simp del] in_decl_loop.simps [simp del]
declare out_arg_loop.simps [simp del] in_arg_loop.simps [simp del]

text \<open>
  Lines 86-111 of \<^verbatim>\<open>create\<close>: the text of the translation unit, \<^verbatim>\<open>ss.str()\<close>, as it
  is handed to the compiler; \<open>None\<close> when a name array is indexed past its end.
\<close>

definition create_input ::
  "string \<Rightarrow> int64 list list \<Rightarrow> string list \<Rightarrow> int64 list list \<Rightarrow> string list \<Rightarrow> string option" where
  \<open>create_input source oshapes onames ishapes inames =
     (let ss = ''#include <cstdint>\<newline>'';
          ss = ss @ ''#include <enzyme_tensor>\<newline>'';
          ss = ss @ source @ ''\<newline>'';
          ss = ss @ ''extern "C" void entry(void** __restrict__ outs, void** __restrict__ ins) {\<newline>''
      in case out_decl_loop 0 oshapes onames ss of
           None \<Rightarrow> None
         | Some ss \<Rightarrow>
             (case in_decl_loop 0 ishapes inames ss of
                None \<Rightarrow> None
              | Some ss \<Rightarrow>
                  (let ss = ss @ ''  myfn('';
                       (comma, ss) = out_arg_loop 0 oshapes (False, ss);
                       (comma, ss) = in_arg_loop 0 ishapes (comma, ss);
                       ss = ss @ '');\<newline>'';
                       ss = ss @ ''}\<newline>''
                   in Some ss)))\<close>

section \<open>The registry: \<^verbatim>\<open>create\<close> and \<^verbatim>\<open>get\<close>\<close>

text \<open>\<^verbatim>\<open>DenseMap::try_emplace\<close> inserts only when the key is absent.\<close>

definition try_emplace :: "('k \<rightharpoonup> 'v) \<Rightarrow> 'k \<Rightarrow> 'v \<Rightarrow> ('k \<rightharpoonup> 'v)" where
  "try_emplace m k v = (case m k of None \<Rightarrow> m(k \<mapsto> v) | Some _ \<Rightarrow> m)"

text \<open>
  Lines 117-129: the environment is built only while \<^verbatim>\<open>JIT\<close> is null. \<^verbatim>\<open>DL\<close> is
  assigned before the builder runs, \<^verbatim>\<open>JIT\<close> only when it succeeded. \<open>Inl\<close> carries
  the static members as the \<^verbatim>\<open>throw\<close> of line 125 leaves them.
\<close>

definition init_JIT ::
  "('a, 'm, 'j) toolchain \<Rightarrow> 'm \<Rightarrow> ('m, 'j) statics \<Rightarrow> ('m, 'j) statics + 'j \<times> ('m, 'j) statics" where
  "init_JIT tc module s =
     (case JIT s of
        Some j \<Rightarrow> Inr (j, s)
      | None \<Rightarrow>
          (let s = s\<lparr>DL := Some module\<rparr>
           in case LLJITBuilder_create tc module of
                None \<Rightarrow> Inl s
              | Some j \<Rightarrow> Inr (j, s\<lparr>JIT := Some j\<rparr>)))"

text \<open>
  \<^verbatim>\<open>CpuKernel::create\<close> (lines 75-153). The result pairs what the call ends with
  (\<open>Inl\<close> an error, \<open>Inr\<close> the identifier returned) with the static members afterwards:
  an exception leaves the process running, with every assignment made before the
  \<^verbatim>\<open>throw\<close> in place.
\<close>

definition create ::
  "('a, 'm, 'j) toolchain \<Rightarrow> string \<Rightarrow> int64 list list \<Rightarrow> string list \<Rightarrow> int64 list list \<Rightarrow>
     string list \<Rightarrow> 'a \<Rightarrow> ('m, 'j) statics \<Rightarrow> (error + int64) \<times> ('m, 'j) statics" where
  "create tc source oshapes onames ishapes inames pyargv s =
     (let ident = last_identifier s;
          s = s\<lparr>last_identifier := last_identifier s + 1\<rparr>
      in case create_input source oshapes onames ishapes inames of
           None \<Rightarrow> (Inl invalid_index, s)
         | Some input \<Rightarrow>
             (case GetLLVMFromJob tc ''/enzyme_call/source.cpp'' input True pyargv of
                None \<Rightarrow> (Inl (value_error ''failed to compile C++''), s)
              | Some module \<Rightarrow>
                  (case init_JIT tc module s of
                     Inl s \<Rightarrow> (Inl (value_error ''failed to create jit''), s)
                   | Inr (j, s) \<Rightarrow>
                       (let LibA = ''enzymedl_'' @ to_string ident;
                            j = createJITDylib tc j LibA;
                            (j, added) = addIRModule tc j LibA module
                        in if \<not> added then
                             (Inl (value_error ''failed to add IR module''), s\<lparr>JIT := Some j\<rparr>)
                           else
                             (let (j, EntrySym) = JIT_lookup tc j LibA ''entry''
                              in case EntrySym of
                                   None \<Rightarrow>
                                     (Inl (value_error
                                        (''failed to lookup function called '' @ [CHR 0x27]
                                           @ ''entry'' @ [CHR 0x27])),
                                      s\<lparr>JIT := Some j\<rparr>)
                                 | Some Entry \<Rightarrow>
                                     (Inr ident,
                                      s\<lparr>JIT := Some j,
                                        kernels := try_emplace (kernels s) ident
                                          (CpuKernel_new ident oshapes Entry)\<rparr>))))))"

text \<open>\<^verbatim>\<open>CpuKernel::get\<close> (lines 155-160): \<open>None\<close> is the null pointer.\<close>

definition get :: "('m, 'j) statics \<Rightarrow> int64 \<Rightarrow> CpuKernel option" where
  "get s ident = kernels s ident"

text \<open>
  The binding \<^verbatim>\<open>create_enzyme_cpu_kernel\<close> (lines 203-241): each element of the two
  Python lists is a pair of an element type name and a list of extents; the names and
  the shapes are split into arrays of equal length and handed to \<^verbatim>\<open>create\<close>.
\<close>

definition create_enzyme_cpu_kernel ::
  "('a, 'm, 'j) toolchain \<Rightarrow> string \<Rightarrow> (string \<times> int64 list) list \<Rightarrow> (string \<times> int64 list) list \<Rightarrow>
     'a \<Rightarrow> ('m, 'j) statics \<Rightarrow> (error + int64) \<times> ('m, 'j) statics" where
  "create_enzyme_cpu_kernel tc source py_out_shapes py_in_shapes pyargv s =
     create tc source (map snd py_out_shapes) (map fst py_out_shapes)
       (map snd py_in_shapes) (map fst py_in_shapes) pyargv s"

text \<open>
  A process calls the binding any number of times. \<open>creates\<close> runs a list of calls in
  order, each on the static members the one before left, and collects what each call
  ended with.
\<close>

datatype 'a py_call =
  py_call (py_source: string) (py_outs: "(string \<times> int64 list) list")
    (py_ins: "(string \<times> int64 list) list") (py_argv: 'a)

definition create_call ::
  "('a, 'm, 'j) toolchain \<Rightarrow> 'a py_call \<Rightarrow> ('m, 'j) statics \<Rightarrow> (error + int64) \<times> ('m, 'j) statics" where
  "create_call tc c s =
     create_enzyme_cpu_kernel tc (py_source c) (py_outs c) (py_ins c) (py_argv c) s"

fun creates ::
  "('a, 'm, 'j) toolchain \<Rightarrow> 'a py_call list \<Rightarrow> ('m, 'j) statics \<Rightarrow>
     (error + int64) list \<times> ('m, 'j) statics" where
  "creates tc [] s = ([], s)"
| "creates tc (c # cs) s =
     (let (r, s1) = create_call tc c s;
          (rs, s2) = creates tc cs s1
      in (r # rs, s2))"

text \<open>
  The identifier that call number \<open>j\<close> of a process (counted from 0) takes from the
  counter in line 82, whatever the call ends with: the counter as the \<open>j\<close> calls
  before it left it.
\<close>

definition allocated :: "('a, 'm, 'j) toolchain \<Rightarrow> 'a py_call list \<Rightarrow> nat \<Rightarrow> int64" where
  "allocated tc cs j = last_identifier (snd (creates tc (take j cs) init_statics))"

section \<open>Dispatch: \<^verbatim>\<open>call\<close> and \<^verbatim>\<open>CpuCallback\<close>\<close>

text \<open>
  Memory is read in 8-byte units: \<open>mem a\<close> is the 64-bit value stored at address \<open>a\<close>.
  The kernel's compiled code is outside the model, so a dispatch ends in one of two
  events: the process is terminated by \<^verbatim>\<open>llvm::report_fatal_error\<close>, or the entry
  address is called with an \<^verbatim>\<open>outs\<close> and an \<^verbatim>\<open>ins\<close> argument. The \<^verbatim>\<open>outs\<close> argument is
  either \<^verbatim>\<open>&out\<close>, the address of the parameter that holds the pointer passed in, or
  that pointer itself cast to \<^verbatim>\<open>void**\<close>. The two writes to \<^verbatim>\<open>llvm::errs()\<close> are left
  out.
\<close>

datatype outs_arg = address_of ptr | reinterpret_cast ptr

datatype dispatch = report_fatal_error string | native_call uint64 outs_arg ptr

text \<open>What the compiled \<^verbatim>\<open>entry\<close> finds in slot \<open>i\<close> of its \<^verbatim>\<open>outs\<close> argument.\<close>

fun outs_slot :: "(ptr \<Rightarrow> 64 word) \<Rightarrow> outs_arg \<Rightarrow> nat \<Rightarrow> ptr option" where
  "outs_slot mem (address_of out) i = (if i = 0 then Some out else None)"
| "outs_slot mem (reinterpret_cast out) i = Some (mem (out + 8 * of_nat i))"

text \<open>\<^verbatim>\<open>CpuKernel::call\<close> (lines 162-169).\<close>

definition call :: "CpuKernel \<Rightarrow> ptr \<Rightarrow> ptr \<Rightarrow> dispatch" where
  "call kern out ins =
     (let outs = (if length (out_shapes kern) > 1 then reinterpret_cast out else address_of out)
      in native_call (addr kern) outs ins)"

text \<open>
  \<^verbatim>\<open>CpuCallback\<close> (lines 186-195): \<^verbatim>\<open>ins[0]\<close> is the value at \<open>ins\<close>, the identifier is
  the 64-bit value it points to, and \<^verbatim>\<open>ins + 1\<close> is one slot, 8 bytes, further.
\<close>

definition CpuCallback :: "('m, 'j) statics \<Rightarrow> (ptr \<Rightarrow> 64 word) \<Rightarrow> ptr \<Rightarrow> ptr \<Rightarrow> dispatch" where
  "CpuCallback s mem out ins =
     (let ident = mem (mem ins)
      in case get s ident of
           None \<Rightarrow> report_fatal_error ''couldn't find enzyme kernel''
         | Some kern \<Rightarrow> call kern out (ins + 8))"

section \<open>The translation unit as the specification describes it\<close>

text \<open>
  These definitions follow the words of the specification, to be compared with
  \<open>create_input\<close>: a shaped tensor type, one reinterpretation statement per descriptor
  (a mutable reference for an output, a read-only one for an input), and the argument
  list of the call, all outputs first and then all inputs, each in declaration order.
\<close>

definition spec_tensor :: "string \<Rightarrow> int64 list \<Rightarrow> string" where
  "spec_tensor name shape =
     ''enzyme::tensor<'' @ name @ concat (map (\<lambda>v. '', '' @ to_string v) shape) @ ''>''"

definition spec_out_stmt :: "nat \<Rightarrow> string \<times> int64 list \<Rightarrow> string" where
  "spec_out_stmt i d =
     '' '' @ spec_tensor (fst d) (snd d) @ ''& out_'' @ decimal i @ '' = *(''
       @ spec_tensor (fst d) (snd d) @ ''*)outs['' @ decimal i @ ''];\<newline>''"

definition spec_in_stmt :: "nat \<Rightarrow> string \<times> int64 list \<Rightarrow> string" where
  "spec_in_stmt i d =
     '' const '' @ spec_tensor (fst d) (snd d) @ ''& in_'' @ decimal i @ '' = *(const ''
       @ spec_tensor (fst d) (snd d) @ ''*)ins['' @ decimal i @ ''];\<newline>''"

definition spec_stmts :: "(string \<times> int64 list) list \<Rightarrow> (string \<times> int64 list) list \<Rightarrow> string list" where
  "spec_stmts outs ins =
     map (\<lambda>(i, d). spec_out_stmt i d) (enumerate 0 outs)
       @ map (\<lambda>(i, d). spec_in_stmt i d) (enumerate 0 ins)"

definition spec_args :: "nat \<Rightarrow> nat \<Rightarrow> string list" where
  "spec_args m n =
     map (\<lambda>i. ''out_'' @ decimal i) [0..<m] @ map (\<lambda>i. ''in_'' @ decimal i) [0..<n]"

fun spec_join :: "string \<Rightarrow> string list \<Rightarrow> string" where
  "spec_join sep [] = []"
| "spec_join sep [x] = x"
| "spec_join sep (x # y # ys) = x @ sep @ spec_join sep (y # ys)"

text \<open>A list of items, each with the separator before it.\<close>

definition sep_concat :: "string \<Rightarrow> string list \<Rightarrow> string" where
  "sep_concat sep xs = concat (map (\<lambda>y. sep @ y) xs)"

definition spec_unit ::
  "string \<Rightarrow> (string \<times> int64 list) list \<Rightarrow> (string \<times> int64 list) list \<Rightarrow> string" where
  \<open>spec_unit source outs ins =
     ''#include <cstdint>\<newline>#include <enzyme_tensor>\<newline>'' @ source @ ''\<newline>''
       @ ''extern "C" void entry(void** __restrict__ outs, void** __restrict__ ins) {\<newline>''
       @ concat (spec_stmts outs ins)
       @ ''  myfn('' @ spec_join '', '' (spec_args (length outs) (length ins)) @ '');\<newline>''
       @ ''}\<newline>''\<close>

section \<open>When the external steps of a call succeed\<close>

text \<open>
  The branches of \<^verbatim>\<open>create\<close> that do not throw, read off lines 113-147: the compiler
  returns a module for the text, the environment exists already or the builder makes
  one from this module, the module is added to the new linkage scope, and the symbol
  \<^verbatim>\<open>entry\<close> resolves there.
\<close>

definition toolchain_accepts ::
  "('a, 'm, 'j) toolchain \<Rightarrow> 'a py_call \<Rightarrow> ('m, 'j) statics \<Rightarrow> bool" where
  "toolchain_accepts tc c s =
     (case create_input (py_source c) (map snd (py_outs c)) (map fst (py_outs c))
             (map snd (py_ins c)) (map fst (py_ins c)) of
        None \<Rightarrow> False
      | Some input \<Rightarrow>
          (case GetLLVMFromJob tc ''/enzyme_call/source.cpp'' input True (py_argv c) of
             None \<Rightarrow> False
           | Some module \<Rightarrow>
               (case (case JIT s of Some j \<Rightarrow> Some j | None \<Rightarrow> LLJITBuilder_create tc module) of
                  None \<Rightarrow> False
                | Some j \<Rightarrow>
                    (let LibA = ''enzymedl_'' @ to_string (last_identifier s);
                         (j, added) = addIRModule tc (createJITDylib tc j LibA) LibA module
                     in added \<and> snd (JIT_lookup tc j LibA ''entry'') \<noteq> None))))"

section \<open>A small toolchain for concrete runs\<close>

text \<open>
  A stand-in for the external collaborators, used only to run the model on concrete
  calls: the compiler looks at the first characters of the user's source, which follow
  the 44 characters of the two include lines, rejects a text that does not go on with
  \<open>void myfn(\<close>, and otherwise returns a module that records the target named by the
  arguments; the builder makes an environment only for the target \<open>x86_64\<close>; adding a
  module succeeds and \<^verbatim>\<open>entry\<close> resolves to the address 4096.
\<close>

definition demo_toolchain :: "(string, string, unit) toolchain" where
  "demo_toolchain =
     \<lparr>GetLLVMFromJob = (\<lambda>path text cpp argv.
         if take 10 (drop 44 text) = ''void myfn('' then Some argv else None),
       LLJITBuilder_create = (\<lambda>module. if module = ''x86_64'' then Some () else None),
       createJITDylib = (\<lambda>j name. j),
       addIRModule = (\<lambda>j name module. (j, True)),
       JIT_lookup = (\<lambda>j name sym. (j, if sym = ''entry'' then Some 4096 else None))\<rparr>"

text \<open>
  Three calls: a copy kernel with one output and one input of shape \<open>[4]\<close>, a kernel
  with two outputs, and a source the compiler rejects.
\<close>

definition copy_call :: "string py_call" where
  "copy_call =
     py_call ''void myfn(auto& o, const auto& i) { o = i; }''
       [(''float'', [4])] [(''float'', [4])] ''x86_64''"

definition split_call :: "string py_call" where
  "split_call =
     py_call ''void myfn(auto& a, auto& b, const auto& c) { a = c; }''
       [(''float'', [2, 3]), (''double'', [])] [(''float'', [2, 3])] ''x86_64''"

definition broken_call :: "string py_call" where
  "broken_call = py_call ''void myfn {'' [] [] ''x86_64''"

text \<open>The copy kernel compiled for a target the builder has no environment for.\<close>

definition foreign_call :: "string py_call" where
  "foreign_call = py_call (py_source copy_call) (py_outs copy_call) (py_ins copy_call) ''nvptx64''"

text \<open>
  The static members after the copy kernel, the rejected source and the two-output
  kernel have been submitted in this order, and a memory for the dispatcher: the
  \<^verbatim>\<open>ins\<close> array at address \<open>0x1000\<close>, whose slot 0 points to \<open>0x2000\<close>, where the
  identifier is stored.
\<close>

definition demo_statics :: "(string, unit) statics" where
  "demo_statics = snd (creates demo_toolchain [copy_call, broken_call, split_call] init_statics)"

text \<open>
  The static members once the counter has gone round: the copy kernel is registered
  under identifier 1 and \<^verbatim>\<open>last_identifier\<close> holds \<open>next\<close>.
\<close>

definition wrapped_statics :: "int64 \<Rightarrow> (string, unit) statics" where
  "wrapped_statics next =
     \<lparr>kernels = [1 \<mapsto> CpuKernel_new 1 [[4]] 4096], last_identifier = next,
      DL = Some ''x86_64'', JIT = Some ()\<rparr>"

definition demo_mem :: "int64 \<Rightarrow> ptr \<Rightarrow> 64 word" where
  "demo_mem ident a = (if a = 0x1000 then 0x2000 else if a = 0x2000 then ident else 0)"

section \<open>The loops of the synthesis in closed form\<close>

lemma shape_loop_eq: "shape_loop shape s = s @ concat (map (\<lambda>v. '', '' @ to_string v) shape)"
  by (induction shape arbitrary: s) auto

lemma make_type_mutable: "make_type name shape False = spec_tensor name shape"
  by (simp add: make_type_def spec_tensor_def shape_loop_eq)

lemma make_type_const: "make_type name shape True = ''const '' @ spec_tensor name shape"
  by (simp add: make_type_def spec_tensor_def shape_loop_eq)

lemma out_decl_loop_eq:
  "i \<le> length outs \<Longrightarrow>
   out_decl_loop i (map snd outs) (map fst outs) ss =
     Some (ss @ concat (map (\<lambda>k. spec_out_stmt k (outs ! k)) [i..<length outs]))"
proof (induction "length outs - i" arbitrary: i ss)
  case 0
  then show ?case by (simp add: out_decl_loop.simps)
next
  case (Suc n)
  then have lt: "i < length outs" by simp
  have step: "[i..<length outs] = i # [Suc i..<length outs]"
    using lt by (simp add: upt_conv_Cons)
  have "n = length outs - Suc i" using Suc.hyps(2) by simp
  then have IH: "\<And>ss. out_decl_loop (Suc i) (map snd outs) (map fst outs) ss =
     Some (ss @ concat (map (\<lambda>k. spec_out_stmt k (outs ! k)) [Suc i..<length outs]))"
    using Suc.hyps(1) lt by simp
  show ?case
    by (subst out_decl_loop.simps) (simp add: lt IH step make_type_mutable spec_out_stmt_def)
qed

lemma in_decl_loop_eq:
  "i \<le> length ins \<Longrightarrow>
   in_decl_loop i (map snd ins) (map fst ins) ss =
     Some (ss @ concat (map (\<lambda>k. spec_in_stmt k (ins ! k)) [i..<length ins]))"
proof (induction "length ins - i" arbitrary: i ss)
  case 0
  then show ?case by (simp add: in_decl_loop.simps)
next
  case (Suc n)
  then have lt: "i < length ins" by simp
  have step: "[i..<length ins] = i # [Suc i..<length ins]"
    using lt by (simp add: upt_conv_Cons)
  have "n = length ins - Suc i" using Suc.hyps(2) by simp
  then have IH: "\<And>ss. in_decl_loop (Suc i) (map snd ins) (map fst ins) ss =
     Some (ss @ concat (map (\<lambda>k. spec_in_stmt k (ins ! k)) [Suc i..<length ins]))"
    using Suc.hyps(1) lt by simp
  show ?case
    by (subst in_decl_loop.simps) (simp add: lt IH step make_type_const spec_in_stmt_def)
qed

lemma enumerate_map_nth:
  "map (\<lambda>(i, d). f i d) (enumerate 0 xs) = map (\<lambda>k. f k (xs ! k)) [0..<length xs]"
  by (auto simp: enumerate_eq_zip intro!: nth_equalityI)


lemma sep_concat_Nil [simp]: "sep_concat sep [] = []"
  by (simp add: sep_concat_def)

lemma sep_concat_Cons [simp]: "sep_concat sep (x # xs) = sep @ x @ sep_concat sep xs"
  by (simp add: sep_concat_def)

lemma sep_concat_append [simp]: "sep_concat sep (xs @ ys) = sep_concat sep xs @ sep_concat sep ys"
  by (simp add: sep_concat_def)

lemma spec_join_Cons: "spec_join sep (x # xs) = x @ sep_concat sep xs"
  by (induction xs arbitrary: x) auto

lemma spec_join_append:
  "xs \<noteq> [] \<Longrightarrow> spec_join sep (xs @ ys) = spec_join sep xs @ sep_concat sep ys"
  by (cases xs) (simp_all add: spec_join_Cons)

lemma out_arg_loop_eq:
  "i \<le> length oshapes \<Longrightarrow>
   out_arg_loop i oshapes (comma, ss) =
     (comma \<or> i < length oshapes,
      ss @ (if comma then sep_concat '', '' (map (\<lambda>k. ''out_'' @ decimal k) [i..<length oshapes])
            else spec_join '', '' (map (\<lambda>k. ''out_'' @ decimal k) [i..<length oshapes])))"
proof (induction "length oshapes - i" arbitrary: i comma ss)
  case 0
  then show ?case by (simp add: out_arg_loop.simps)
next
  case (Suc n)
  then have lt: "i < length oshapes" by simp
  have step: "[i..<length oshapes] = i # [Suc i..<length oshapes]"
    using lt by (simp add: upt_conv_Cons)
  have "n = length oshapes - Suc i" using Suc.hyps(2) by simp
  then have IH: "\<And>ss. out_arg_loop (Suc i) oshapes (True, ss) =
     (True, ss @ sep_concat '', '' (map (\<lambda>k. ''out_'' @ decimal k) [Suc i..<length oshapes]))"
    using Suc.hyps(1) [of "Suc i" True] lt by simp
  show ?case
    by (subst out_arg_loop.simps) (simp add: lt IH step spec_join_Cons)
qed

lemma in_arg_loop_eq:
  "i \<le> length ishapes \<Longrightarrow>
   in_arg_loop i ishapes (comma, ss) =
     (comma \<or> i < length ishapes,
      ss @ (if comma then sep_concat '', '' (map (\<lambda>k. ''in_'' @ decimal k) [i..<length ishapes])
            else spec_join '', '' (map (\<lambda>k. ''in_'' @ decimal k) [i..<length ishapes])))"
proof (induction "length ishapes - i" arbitrary: i comma ss)
  case 0
  then show ?case by (simp add: in_arg_loop.simps)
next
  case (Suc n)
  then have lt: "i < length ishapes" by simp
  have step: "[i..<length ishapes] = i # [Suc i..<length ishapes]"
    using lt by (simp add: upt_conv_Cons)
  have "n = length ishapes - Suc i" using Suc.hyps(2) by simp
  then have IH: "\<And>ss. in_arg_loop (Suc i) ishapes (True, ss) =
     (True, ss @ sep_concat '', '' (map (\<lambda>k. ''in_'' @ decimal k) [Suc i..<length ishapes]))"
    using Suc.hyps(1) [of "Suc i" True] lt by simp
  show ?case
    by (subst in_arg_loop.simps) (simp add: lt IH step spec_join_Cons)
qed

lemma arg_loops_eq:
  "in_arg_loop 0 ishapes (out_arg_loop 0 oshapes (False, ss)) =
     (0 < length oshapes \<or> 0 < length ishapes,
      ss @ spec_join '', '' (spec_args (length oshapes) (length ishapes)))"
proof (cases "oshapes = []")
  case True
  then show ?thesis
    by (simp add: out_arg_loop_eq in_arg_loop_eq spec_args_def)
next
  case False
  then have ne: "map (\<lambda>k. ''out_'' @ decimal k) [0..<length oshapes] \<noteq> []" by simp
  show ?thesis
    using False unfolding spec_args_def spec_join_append [OF ne]
    by (simp add: out_arg_loop_eq in_arg_loop_eq)
qed

lemma create_input_eq:
  "create_input source (map snd outs) (map fst outs) (map snd ins) (map fst ins) =
     Some (spec_unit source outs ins)"
proof -
  have args: "\<And>ss. in_arg_loop 0 (map snd ins) (out_arg_loop 0 (map snd outs) (False, ss)) =
     (0 < length outs \<or> 0 < length ins, ss @ spec_join '', '' (spec_args (length outs) (length ins)))"
    using arg_loops_eq [of "map snd ins" "map snd outs"] by simp
  show ?thesis
    unfolding create_input_def Let_def
    by (simp add: out_decl_loop_eq in_decl_loop_eq args spec_unit_def spec_stmts_def
        enumerate_map_nth split: prod.splits)
qed

section \<open>What one call and a run of calls do to the static members\<close>

lemma create_result:
  assumes "create tc source oshapes onames ishapes inames pyargv s = (r, s')"
  shows "last_identifier s' = last_identifier s + 1"
    and "\<And>e. r = Inl e \<Longrightarrow> kernels s' = kernels s"
    and "\<And>k. r = Inr k \<Longrightarrow> k = last_identifier s \<and>
           (\<exists>Entry. kernels s' = try_emplace (kernels s) k (CpuKernel_new k oshapes Entry))"
  using assms
  by (auto simp: create_def init_JIT_def Let_def
      split: option.splits sum.splits prod.splits if_splits)

lemma create_call_result:
  assumes "create_call tc c s = (r, s')"
  shows "last_identifier s' = last_identifier s + 1"
    and "\<And>e. r = Inl e \<Longrightarrow> kernels s' = kernels s"
    and "\<And>k. r = Inr k \<Longrightarrow> k = last_identifier s \<and>
           (\<exists>Entry. kernels s' =
              try_emplace (kernels s) k (CpuKernel_new k (map snd (py_outs c)) Entry))"
  using assms create_result [of tc "py_source c" "map snd (py_outs c)" "map fst (py_outs c)"
      "map snd (py_ins c)" "map fst (py_ins c)" "py_argv c" s r s']
  by (simp_all add: create_call_def create_enzyme_cpu_kernel_def)

lemma try_emplace_keeps: "m k = Some v \<Longrightarrow> try_emplace m k' v' k = Some v"
  by (auto simp: try_emplace_def split: option.splits)

lemma try_emplace_fresh: "m k = None \<Longrightarrow> try_emplace m k v k = Some v"
  by (simp add: try_emplace_def)

lemma try_emplace_dom: "dom (try_emplace m k v) = insert k (dom m)"
  by (auto simp: try_emplace_def split: option.splits if_splits)

lemma create_call_keeps:
  assumes "create_call tc c s = (r, s')" and "kernels s k = Some v"
  shows "kernels s' k = Some v"
proof (cases r)
  case (Inl e)
  then show ?thesis using create_call_result(2) [OF assms(1)] assms(2) by simp
next
  case (Inr k')
  then obtain Entry where
    "kernels s' = try_emplace (kernels s) k' (CpuKernel_new k' (map snd (py_outs c)) Entry)"
    using create_call_result(3) [OF assms(1)] by blast
  then show ?thesis using assms(2) by (simp add: try_emplace_keeps)
qed

lemma create_call_dom:
  assumes "create_call tc c s = (r, s')"
  shows "dom (kernels s') = (case r of Inl e \<Rightarrow> dom (kernels s) | Inr k \<Rightarrow> insert k (dom (kernels s)))"
proof (cases r)
  case (Inl e)
  then show ?thesis using create_call_result(2) [OF assms] by simp
next
  case (Inr k')
  then obtain Entry where
    "kernels s' = try_emplace (kernels s) k' (CpuKernel_new k' (map snd (py_outs c)) Entry)"
    using create_call_result(3) [OF assms(1)] by blast
  then show ?thesis using Inr by (simp add: try_emplace_dom)
qed

lemma creates_Cons:
  "creates tc (c # cs) s =
     (fst (create_call tc c s) # fst (creates tc cs (snd (create_call tc c s))),
      snd (creates tc cs (snd (create_call tc c s))))"
  by (simp add: Let_def split: prod.splits)

lemma creates_append:
  "creates tc (xs @ ys) s =
     (fst (creates tc xs s) @ fst (creates tc ys (snd (creates tc xs s))),
      snd (creates tc ys (snd (creates tc xs s))))"
  by (induction xs arbitrary: s) (simp_all add: creates_Cons del: creates.simps(2))

lemma creates_length: "length (fst (creates tc cs s)) = length cs"
  by (induction cs arbitrary: s) (simp_all add: creates_Cons del: creates.simps(2))

lemma creates_counter:
  "last_identifier (snd (creates tc cs s)) = last_identifier s + of_nat (length cs)"
proof (induction cs arbitrary: s)
  case Nil
  then show ?case by simp
next
  case (Cons c cs)
  obtain r s1 where c: "create_call tc c s = (r, s1)" by (cases "create_call tc c s")
  have "last_identifier s1 = last_identifier s + 1" by (rule create_call_result(1) [OF c])
  then show ?case using Cons.IH [of s1] c by (simp add: creates_Cons del: creates.simps(2))
qed

lemma creates_returned:
  "j < length cs \<Longrightarrow> fst (creates tc cs s) ! j = Inr k \<Longrightarrow> k = last_identifier s + of_nat j"
proof (induction cs arbitrary: s j)
  case Nil
  then show ?case by simp
next
  case (Cons c cs)
  obtain r s1 where c: "create_call tc c s = (r, s1)" by (cases "create_call tc c s")
  have s1: "last_identifier s1 = last_identifier s + 1" by (rule create_call_result(1) [OF c])
  show ?case
  proof (cases j)
    case 0
    then have "r = Inr k" using Cons.prems c by (simp add: creates_Cons del: creates.simps(2))
    then show ?thesis using create_call_result(3) [OF c] 0 by simp
  next
    case (Suc j')
    then have "fst (creates tc cs s1) ! j' = Inr k" and "j' < length cs"
      using Cons.prems c by (simp_all add: creates_Cons del: creates.simps(2))
    then have "k = last_identifier s1 + of_nat j'" using Cons.IH by blast
    then show ?thesis using s1 Suc by simp
  qed
qed

lemma creates_keeps:
  "kernels s k = Some v \<Longrightarrow> kernels (snd (creates tc cs s)) k = Some v"
proof (induction cs arbitrary: s)
  case Nil
  then show ?case by simp
next
  case (Cons c cs)
  obtain r s1 where c: "create_call tc c s = (r, s1)" by (cases "create_call tc c s")
  have "kernels s1 k = Some v" by (rule create_call_keeps [OF c Cons.prems])
  then show ?case using Cons.IH [of s1] c by (simp add: creates_Cons del: creates.simps(2))
qed

lemma creates_dom:
  "dom (kernels (snd (creates tc cs s))) =
     dom (kernels s) \<union> {k. Inr k \<in> set (fst (creates tc cs s))}"
proof (induction cs arbitrary: s)
  case Nil
  then show ?case by simp
next
  case (Cons c cs)
  obtain r s1 where c: "create_call tc c s = (r, s1)" by (cases "create_call tc c s")
  have d: "dom (kernels s1) = (case r of Inl e \<Rightarrow> dom (kernels s) | Inr k \<Rightarrow> insert k (dom (kernels s)))"
    by (rule create_call_dom [OF c])
  have "dom (kernels (snd (creates tc cs s1))) =
          dom (kernels s1) \<union> {k. Inr k \<in> set (fst (creates tc cs s1))}"
    by (rule Cons.IH)
  then show ?case using c d
    by (cases r) (auto simp add: creates_Cons simp del: creates.simps(2))
qed

lemma accepts_iff:
  "toolchain_accepts tc c s = (\<exists>k s'. create_call tc c s = (Inr k, s'))"
  by (auto simp: toolchain_accepts_def create_call_def create_enzyme_cpu_kernel_def create_def
      init_JIT_def Let_def split: option.splits sum.splits prod.splits if_splits)

lemma create_call_error:
  assumes "create_call tc c s = (Inl e, s')"
  shows "e \<in> value_error ` {''failed to compile C++'', ''failed to create jit'',
           ''failed to add IR module'',
           ''failed to lookup function called '' @ [CHR 0x27] @ ''entry'' @ [CHR 0x27]}"
  using assms
  by (auto simp: create_call_def create_enzyme_cpu_kernel_def create_def create_input_eq
      init_JIT_def Let_def split: option.splits sum.splits prod.splits if_splits)

lemma create_call_jit_failure:
  assumes "create_call tc c s = (r, s')"
    and "create_input (py_source c) (map snd (py_outs c)) (map fst (py_outs c))
           (map snd (py_ins c)) (map fst (py_ins c)) = Some input"
    and "GetLLVMFromJob tc ''/enzyme_call/source.cpp'' input True (py_argv c) = Some module"
    and "JIT s = None"
  shows "(r = Inl (value_error ''failed to create jit'')) = (LLJITBuilder_create tc module = None)"
  using assms
  by (auto simp: create_call_def create_enzyme_cpu_kernel_def create_def create_input_eq
      init_JIT_def Let_def split: option.splits sum.splits prod.splits if_splits)

lemma create_call_jit_kept:
  assumes "create_call tc c s = (r, s')"
  shows "(r = Inl (value_error ''failed to create jit'') \<longrightarrow> JIT s = None \<and> JIT s' = None)
       \<and> (\<forall>k. r = Inr k \<longrightarrow> JIT s' \<noteq> None)"
  using assms
  by (auto simp: create_call_def create_enzyme_cpu_kernel_def create_def create_input_eq
      init_JIT_def Let_def split: option.splits sum.splits prod.splits if_splits)

lemma creates_allocated:
  "last_identifier (snd (creates tc (take j cs) init_statics)) = 1 + of_nat (min j (length cs))"
  by (simp add: creates_counter init_statics_def min.commute)

lemma init_JIT_builder_unused:
  "JIT s \<noteq> None \<Longrightarrow> init_JIT (tc\<lparr>LLJITBuilder_create := f\<rparr>) module s = init_JIT tc module s"
  by (auto simp: init_JIT_def)

lemma create_call_builder_unused:
  assumes "JIT s \<noteq> None"
  shows "create_call (tc\<lparr>LLJITBuilder_create := f\<rparr>) c s = create_call tc c s"
proof -
  have "JIT (s\<lparr>last_identifier := last_identifier s + 1\<rparr>) \<noteq> None"
    using assms by simp
  note unused = init_JIT_builder_unused [OF this]
  show ?thesis
    by (simp add: create_call_def create_enzyme_cpu_kernel_def create_def Let_def unused
        split: option.split sum.split prod.split)
qed

lemma creates_snoc:
  assumes "creates tc before s0 = (rs, s)" and "create_call tc c s = (r, s1)"
  shows "creates tc (before @ [c]) s0 = (rs @ [r], s1)"
  using assms by (simp add: creates_append creates_Cons del: creates.simps(2))

section \<open>Identifiers as 64-bit numbers\<close>

lemma sint_of_nat_small:
  assumes "n < 2 ^ 63"
  shows "sint (of_nat n :: 64 word) = int n"
proof -
  have lt: "int n < 2 ^ 63" using assms by simp
  have "sint (word_of_int (int n) :: 64 word) = signed_take_bit (LENGTH(64) - 1) (int n)"
    by (rule sint_sbintrunc')
  then have "sint (of_nat n :: 64 word) = signed_take_bit 63 (int n)"
    by simp
  also have "\<dots> = int n"
    by (rule signed_take_bit_int_eq_self) (use lt in simp_all)
  finally show ?thesis .
qed

lemma of_nat_distinct:
  "j < n \<Longrightarrow> n < 2 ^ 64 \<Longrightarrow> (of_nat j :: 64 word) \<noteq> of_nat n"
  by (simp add: word_of_nat_eq_iff take_bit_nat_eq_self)

lemma creates_fresh:
  assumes "length cs < 2 ^ 64" and "creates tc cs init_statics = (rs, s)"
  shows "kernels s (last_identifier s) = None"
proof -
  have dom: "dom (kernels s) = {k. Inr k \<in> set rs}"
    using creates_dom [of tc cs init_statics] assms(2) by (simp add: init_statics_def)
  have cnt: "last_identifier s = 1 + of_nat (length cs)"
    using creates_counter [of tc cs init_statics] assms(2) by (simp add: init_statics_def)
  have len: "length rs = length cs"
    using creates_length [of tc cs init_statics] assms(2) by simp
  have "Inr (last_identifier s) \<notin> set rs"
  proof
    assume "Inr (last_identifier s) \<in> set rs"
    then obtain j where j: "j < length cs" and at: "rs ! j = Inr (last_identifier s)"
      using len by (auto simp: in_set_conv_nth)
    have "last_identifier s = 1 + of_nat j"
      using creates_returned [of j cs tc init_statics "last_identifier s"] j at assms(2)
      by (simp add: init_statics_def)
    then have "(of_nat j :: 64 word) = of_nat (length cs)" using cnt by simp
    then show False using of_nat_distinct [OF j assms(1)] by simp
  qed
  then have "last_identifier s \<notin> dom (kernels s)" using dom by simp
  then show ?thesis by (simp add: domIff)
qed

section \<open>Concrete runs\<close>

lemma decimal_digit: "n < 10 \<Longrightarrow> decimal n = [digit n]"
  by (simp add: decimal.simps)

lemmas unit_eval = spec_unit_def spec_stmts_def spec_args_def spec_out_stmt_def spec_in_stmt_def
  spec_tensor_def to_string_def decimal_digit digit_def enumerate_eq_zip

lemma create_broken:
  "create_call demo_toolchain broken_call s =
     (Inl (value_error ''failed to compile C++''), s\<lparr>last_identifier := last_identifier s + 1\<rparr>)"
proof -
  have "create_input ''void myfn {'' [] [] [] [] = Some (spec_unit ''void myfn {'' [] [])"
    using create_input_eq [of "''void myfn {''" "[]" "[]"] by simp
  then show ?thesis
    by (simp add: create_call_def create_enzyme_cpu_kernel_def create_def broken_call_def
        unit_eval demo_toolchain_def)
qed

lemma create_copy:
  "create_call demo_toolchain copy_call s =
     (Inr (last_identifier s),
      s\<lparr>last_identifier := last_identifier s + 1,
        DL := (if JIT s = None then Some ''x86_64'' else DL s),
        JIT := Some (),
        kernels := try_emplace (kernels s) (last_identifier s)
          (CpuKernel_new (last_identifier s) [[4]] 4096)\<rparr>)"
proof -
  have "create_input (py_source copy_call) (map snd (py_outs copy_call)) (map fst (py_outs copy_call))
     (map snd (py_ins copy_call)) (map fst (py_ins copy_call)) = 
   Some (spec_unit (py_source copy_call) (py_outs copy_call) (py_ins copy_call))"
    by (rule create_input_eq)
  then show ?thesis
    by (cases "JIT s")
       (simp_all add: create_call_def create_enzyme_cpu_kernel_def create_def init_JIT_def
        copy_call_def unit_eval demo_toolchain_def Let_def)
qed

lemma create_split:
  "create_call demo_toolchain split_call s =
     (Inr (last_identifier s),
      s\<lparr>last_identifier := last_identifier s + 1,
        DL := (if JIT s = None then Some ''x86_64'' else DL s),
        JIT := Some (),
        kernels := try_emplace (kernels s) (last_identifier s)
          (CpuKernel_new (last_identifier s) [[2, 3], []] 4096)\<rparr>)"
proof -
  have "create_input (py_source split_call) (map snd (py_outs split_call)) (map fst (py_outs split_call))
     (map snd (py_ins split_call)) (map fst (py_ins split_call)) = 
   Some (spec_unit (py_source split_call) (py_outs split_call) (py_ins split_call))"
    by (rule create_input_eq)
  then show ?thesis
    by (cases "JIT s")
       (simp_all add: create_call_def create_enzyme_cpu_kernel_def create_def init_JIT_def
        split_call_def unit_eval demo_toolchain_def Let_def)
qed

lemma create_foreign:
  "JIT s = None \<Longrightarrow> create_call demo_toolchain foreign_call s =
     (Inl (value_error ''failed to create jit''),
      s\<lparr>last_identifier := last_identifier s + 1, DL := Some ''nvptx64''\<rparr>)"
proof -
  assume j: "JIT s = None"
  have "create_input (py_source copy_call) (map snd (py_outs copy_call)) (map fst (py_outs copy_call))
     (map snd (py_ins copy_call)) (map fst (py_ins copy_call)) = 
   Some (spec_unit (py_source copy_call) (py_outs copy_call) (py_ins copy_call))"
    by (rule create_input_eq)
  then show ?thesis using j
    by (simp_all add: create_call_def create_enzyme_cpu_kernel_def create_def init_JIT_def
        foreign_call_def copy_call_def unit_eval demo_toolchain_def Let_def)
qed

lemma demo_run:
  "creates demo_toolchain [copy_call, broken_call, split_call] init_statics =
     ([Inr 1, Inl (value_error ''failed to compile C++''), Inr 3],
      \<lparr>kernels = [1 \<mapsto> CpuKernel_new 1 [[4]] 4096, 3 \<mapsto> CpuKernel_new 3 [[2, 3], []] 4096],
       last_identifier = 4, DL = Some ''x86_64'', JIT = Some ()\<rparr>)"
  by (simp add: create_copy create_broken create_split init_statics_def try_emplace_def)

lemma demo_get:
  "get demo_statics 1 = Some (CpuKernel_new 1 [[4]] 4096)"
  "get demo_statics 2 = None"
  "get demo_statics 3 = Some (CpuKernel_new 3 [[2, 3], []] 4096)"
  unfolding demo_statics_def demo_run by (simp_all add: get_def)

lemma creates_broken:
  "creates demo_toolchain (replicate n broken_call) s =
     (replicate n (Inl (value_error ''failed to compile C++'')),
      s\<lparr>last_identifier := last_identifier s + of_nat n\<rparr>)"
proof (induction n arbitrary: s)
  case 0
  then show ?case by simp
next
  case (Suc n)
  have "creates demo_toolchain (replicate (Suc n) broken_call) s =
     (Inl (value_error ''failed to compile C++'')
        # fst (creates demo_toolchain (replicate n broken_call)
                 (s\<lparr>last_identifier := last_identifier s + 1\<rparr>)),
      snd (creates demo_toolchain (replicate n broken_call)
             (s\<lparr>last_identifier := last_identifier s + 1\<rparr>)))"
    by (simp only: replicate_Suc creates_Cons create_broken fst_conv snd_conv)
  then show ?case
    by (simp only: Suc.IH fst_conv snd_conv replicate_Suc) (simp add: add.assoc)
qed

lemma wrap_run:
  "fst (creates demo_toolchain (replicate n broken_call @ [copy_call, copy_call]) init_statics) =
     replicate n (Inl (value_error ''failed to compile C++''))
       @ [Inr (1 + of_nat n), Inr (1 + of_nat n + 1)]"
  by (simp add: creates_append creates_broken creates_Cons create_copy init_statics_def
      del: creates.simps(2))

lemma reuse_run:
  "creates demo_toolchain (copy_call # replicate n broken_call) init_statics =
     (Inr 1 # replicate n (Inl (value_error ''failed to compile C++'')),
      \<lparr>kernels = [1 \<mapsto> CpuKernel_new 1 [[4]] 4096], last_identifier = 2 + of_nat n,
       DL = Some ''x86_64'', JIT = Some ()\<rparr>)"
  by (simp add: creates_Cons creates_broken create_copy init_statics_def try_emplace_def
      del: creates.simps(2))

lemma create_foreign_set:
  "JIT s = Some () \<Longrightarrow> create_call demo_toolchain foreign_call s =
     (Inr (last_identifier s),
      s\<lparr>last_identifier := last_identifier s + 1,
        kernels := try_emplace (kernels s) (last_identifier s)
          (CpuKernel_new (last_identifier s) [[4]] 4096)\<rparr>)"
proof -
  assume j: "JIT s = Some ()"
  have "create_input (py_source copy_call) (map snd (py_outs copy_call)) (map fst (py_outs copy_call))
     (map snd (py_ins copy_call)) (map fst (py_ins copy_call)) = 
   Some (spec_unit (py_source copy_call) (py_outs copy_call) (py_ins copy_call))"
    by (rule create_input_eq)
  then show ?thesis using j
    by (simp_all add: create_call_def create_enzyme_cpu_kernel_def create_def init_JIT_def
        foreign_call_def copy_call_def unit_eval demo_toolchain_def Let_def)
qed

lemma wrapped_run:
  "snd (creates demo_toolchain (copy_call # replicate n broken_call) init_statics) =
     wrapped_statics (2 + of_nat n)"
  by (simp only: reuse_run snd_conv wrapped_statics_def)

section \<open>The claims\<close>

subsection \<open>C1: identifier allocation\<close>

text \<open>
  C1 (identifier allocation invariant), with the bound the counter's width forces. In a
  run of fewer than \<open>2\<^sup>6\<^sup>3\<close> calls from the initial static members: the first
  call takes identifier 1; a call that returns, returns the identifier it took; the
  identifiers the calls take, whether they return or throw, strictly increase as signed
  64-bit numbers, so the identifiers returned strictly increase and are pairwise
  distinct; and every call, failed or not, has advanced the counter by one.
\<close>

theorem create_identifiers_increase:
  assumes "length cs < 2 ^ 63" and "creates tc cs init_statics = (rs, s')"
  shows "allocated tc cs 0 = 1
    \<and> (\<forall>j<length cs. \<forall>k. rs ! j = Inr k \<longrightarrow> k = allocated tc cs j)
    \<and> (\<forall>i j. i < j \<and> j < length cs \<longrightarrow> sint (allocated tc cs i) < sint (allocated tc cs j))
    \<and> (\<forall>i j a b. i < j \<and> j < length cs \<and> rs ! i = Inr a \<and> rs ! j = Inr b \<longrightarrow>
          sint a < sint b \<and> a \<noteq> b)
    \<and> last_identifier s' = 1 + of_nat (length cs)"
proof -
  have alloc: "allocated tc cs j = of_nat (Suc j)" if "j < length cs" for j
    using that by (simp add: allocated_def creates_allocated)
  have val: "sint (allocated tc cs j) = int j + 1" if "j < length cs" for j
  proof -
    have "Suc j < 2 ^ 63" using that assms(1) by linarith
    then have "sint (of_nat (Suc j) :: 64 word) = int (Suc j)" by (rule sint_of_nat_small)
    then show ?thesis using alloc [OF that] by simp
  qed
  have ret: "k = allocated tc cs j" if "j < length cs" and "rs ! j = Inr k" for j k
  proof -
    have "k = 1 + of_nat j"
      using creates_returned [of j cs tc init_statics k] that assms(2)
      by (simp add: init_statics_def)
    then show ?thesis by (simp add: alloc [OF that(1)])
  qed
  have first: "allocated tc cs 0 = 1"
    by (simp add: allocated_def init_statics_def)
  have mono: "sint (allocated tc cs i) < sint (allocated tc cs j)"
    if "i < j" and "j < length cs" for i j
  proof -
    have "i < length cs" using that by simp
    then show ?thesis using val [of i] val [OF that(2)] that(1) by simp
  qed
  have pair: "sint a < sint b \<and> a \<noteq> b"
    if "i < j" and "j < length cs" and "rs ! i = Inr a" and "rs ! j = Inr b" for i j a b
  proof -
    have "i < length cs" using that by simp
    then have "a = allocated tc cs i" and "b = allocated tc cs j"
      using ret that by simp_all
    then show ?thesis using mono [OF that(1,2)] by auto
  qed
  have last: "last_identifier s' = 1 + of_nat (length cs)"
    using creates_counter [of tc cs init_statics] assms(2) by (simp add: init_statics_def)
  show ?thesis
    apply (intro conjI allI impI)
    subgoal by (rule first)
    subgoal by (erule (1) ret)
    subgoal using mono by blast
    subgoal using pair by blast
    subgoal using pair by blast
    subgoal by (rule last)
    done
qed

theorem create_identifiers_increase_witness:
  "length [copy_call, broken_call, split_call] < (2 :: nat) ^ 63
   \<and> creates demo_toolchain [copy_call, broken_call, split_call] init_statics =
       ([Inr 1, Inl (value_error ''failed to compile C++''), Inr 3], demo_statics)
   \<and> allocated demo_toolchain [copy_call, broken_call, split_call] 0 = 1
   \<and> sint (allocated demo_toolchain [copy_call, broken_call, split_call] 1) = 2
   \<and> allocated demo_toolchain [copy_call, broken_call, split_call] 2 = 3
   \<and> sint (1 :: int64) < sint (3 :: int64)
   \<and> last_identifier demo_statics = 4"
proof -
  let ?cs = "[copy_call, broken_call, split_call]"
  have len: "length ?cs < (2 :: nat) ^ 63" by simp
  have run: "creates demo_toolchain ?cs init_statics =
      ([Inr 1, Inl (value_error ''failed to compile C++''), Inr 3], demo_statics)"
    unfolding demo_statics_def demo_run by simp
  note th = create_identifiers_increase [OF len run]
  have a0: "allocated demo_toolchain ?cs 0 = 1" using th by blast
  have a2: "allocated demo_toolchain ?cs 2 = 3"
  proof -
    have "\<forall>j<length ?cs. \<forall>k. [Inr 1, Inl (value_error ''failed to compile C++''), Inr 3] ! j = Inr k
            \<longrightarrow> k = allocated demo_toolchain ?cs j"
      using th by blast
    from this [rule_format, of 2 3] show ?thesis by simp
  qed
  have m: "\<forall>i j. i < j \<and> j < length ?cs \<longrightarrow>
      sint (allocated demo_toolchain ?cs i) < sint (allocated demo_toolchain ?cs j)"
    using th by blast
  have "sint (allocated demo_toolchain ?cs 0) < sint (allocated demo_toolchain ?cs 1)"
    and "sint (allocated demo_toolchain ?cs 1) < sint (allocated demo_toolchain ?cs 2)"
    using m [rule_format, of 0 1] m [rule_format, of 1 2] by simp_all
  then have a1: "sint (allocated demo_toolchain ?cs 1) = 2"
    unfolding a0 a2 by simp
  have l: "last_identifier demo_statics = 4"
    using th by simp
  show ?thesis using len run a0 a1 a2 l by simp
qed

text \<open>
  C1 as stated, without a bound on the number of calls, fails: \<^verbatim>\<open>last_identifier\<close> is an
  \<^verbatim>\<open>int64_t\<close> and nothing guards its increment. After \<open>2\<^sup>6\<^sup>3 - 2\<close> rejected sources, two
  accepted calls return \<open>2\<^sup>6\<^sup>3 - 1\<close> and then \<open>-2\<^sup>6\<^sup>3\<close>: the later identifier is the
  smaller one.
\<close>

theorem create_identifiers_wrap:
  "fst (creates demo_toolchain (replicate (2 ^ 63 - 2) broken_call @ [copy_call, copy_call])
          init_statics) =
     replicate (2 ^ 63 - 2) (Inl (value_error ''failed to compile C++''))
       @ [Inr 0x7FFFFFFFFFFFFFFF, Inr 0x8000000000000000]
   \<and> sint (0x8000000000000000 :: int64) < sint (0x7FFFFFFFFFFFFFFF :: int64)"
proof -
  have a: "(1 + of_nat (2 ^ 63 - 2) :: 64 word) = 0x7FFFFFFFFFFFFFFF" by simp
  have b: "(0x7FFFFFFFFFFFFFFF + 1 :: 64 word) = 0x8000000000000000" by simp
  have run: "fst (creates demo_toolchain (replicate (2 ^ 63 - 2) broken_call @ [copy_call, copy_call])
          init_statics) =
     replicate (2 ^ 63 - 2) (Inl (value_error ''failed to compile C++''))
       @ [Inr 0x7FFFFFFFFFFFFFFF, Inr 0x8000000000000000]"
    using wrap_run [of "2 ^ 63 - 2"] by (simp only: a b)
  have lt: "sint (0x8000000000000000 :: int64) < sint (0x7FFFFFFFFFFFFFFF :: int64)" by simp
  show ?thesis by (rule conjI [OF run lt])
qed

subsection \<open>C2: dispatch on a registered identifier\<close>

text \<open>
  C2 (dispatch behaviour on a registered identifier). \<^verbatim>\<open>CpuCallback\<close> reads the 64-bit
  identifier at the address held in slot 0 of \<^verbatim>\<open>ins\<close>; when \<^verbatim>\<open>get\<close> finds a kernel
  under it, the kernel's entry address is called with the inputs array advanced by one
  slot and with an outputs argument that is the address of the pointer passed in (the
  pointer is the sole output slot) when the kernel declares exactly one output, and the
  pointer itself read as an array of per-output pointers when it declares more than one.
\<close>

theorem dispatch_registered:
  assumes "get s (mem (mem ins)) = Some k"
  shows "\<exists>outs. CpuCallback s mem out ins = native_call (addr k) outs (ins + 8)
           \<and> (length (out_shapes k) = 1 \<longrightarrow>
                 outs = address_of out \<and> outs_slot mem outs 0 = Some out)
           \<and> (1 < length (out_shapes k) \<longrightarrow>
                 outs = reinterpret_cast out
                 \<and> (\<forall>i. outs_slot mem outs i = Some (mem (out + 8 * of_nat i))))"
  using assms by (simp add: CpuCallback_def call_def)

theorem dispatch_registered_witness:
  "CpuCallback demo_statics (demo_mem 3) 0x3000 0x1000 =
     native_call 4096 (reinterpret_cast 0x3000) 0x1008
   \<and> CpuCallback demo_statics (demo_mem 1) 0x3000 0x1000 =
     native_call 4096 (address_of 0x3000) 0x1008"
proof -
  have g3: "get demo_statics (demo_mem 3 (demo_mem 3 0x1000)) = Some (CpuKernel_new 3 [[2, 3], []] 4096)"
    by (simp add: demo_mem_def demo_get)
  have g1: "get demo_statics (demo_mem 1 (demo_mem 1 0x1000)) = Some (CpuKernel_new 1 [[4]] 4096)"
    by (simp add: demo_mem_def demo_get)
  show ?thesis
    using dispatch_registered [of demo_statics "demo_mem 3" "0x1000"
          "CpuKernel_new 3 [[2, 3], []] 4096" "0x3000"] g3
      dispatch_registered [of demo_statics "demo_mem 1" "0x1000"
          "CpuKernel_new 1 [[4]] 4096" "0x3000"] g1
    by (auto simp: CpuKernel_new_def)
qed

subsection \<open>C3: a failed creation leaves the registry as it was\<close>

text \<open>
  C3 (creation-failure atomicity), with the bound the counter's width forces. When one
  of the steps whose result \<^verbatim>\<open>create\<close> checks fails (the compiler returns no module, the
  builder makes no environment, the module cannot be added, or \<^verbatim>\<open>entry\<close> does not
  resolve), the call throws a \<^verbatim>\<open>value_error\<close> with one of the four messages, the
  registry is exactly as before (every \<^verbatim>\<open>get\<close> answers as it did) and the counter has
  advanced by one. A following call whose own steps succeed returns the next identifier,
  one above the one the failed call took. When the failed call was preceded by fewer
  than \<open>2\<^sup>6\<^sup>4 - 1\<close> calls of the process, that identifier is fresh: no record is stored
  under it, none of the calls so far took it, and afterwards \<^verbatim>\<open>get\<close> returns under it a
  record with the output shapes of the new call. The result of \<^verbatim>\<open>createJITDylib\<close> is read
  unchecked in lines 131-135, so the source gives a failure of that step no outcome;
  nothing is said about it here.
\<close>

theorem failed_create_leaves_registry:
  assumes "\<not> toolchain_accepts tc c s"
  shows "\<exists>msg s1.
      create_call tc c s = (Inl (value_error msg), s1)
    \<and> msg \<in> {''failed to compile C++'', ''failed to create jit'', ''failed to add IR module'',
               ''failed to lookup function called '' @ [CHR 0x27] @ ''entry'' @ [CHR 0x27]}
    \<and> kernels s1 = kernels s
    \<and> (\<forall>k. get s1 k = get s k)
    \<and> last_identifier s1 = last_identifier s + 1
    \<and> (\<forall>c'. toolchain_accepts tc c' s1 \<longrightarrow>
          (\<exists>Entry s2.
              create_call tc c' s1 = (Inr (last_identifier s + 1), s2)
            \<and> (\<forall>before rs.
                  Suc (length before) < 2 ^ 64 \<and> creates tc before init_statics = (rs, s) \<longrightarrow>
                    get s1 (last_identifier s + 1) = None
                  \<and> (\<forall>j\<le>length before.
                        allocated tc (before @ [c]) j \<noteq> last_identifier s + 1)
                  \<and> get s2 (last_identifier s + 1) =
                      Some (CpuKernel_new (last_identifier s + 1) (map snd (py_outs c')) Entry))))"
proof -
  obtain r s1 where c: "create_call tc c s = (r, s1)"
    by (cases "create_call tc c s")
  have "\<not> (\<exists>k. r = Inr k)"
    using assms c by (auto simp: accepts_iff)
  then obtain e where r: "r = Inl e" by (cases r) auto
  have "e \<in> value_error ` {''failed to compile C++'', ''failed to create jit'',
           ''failed to add IR module'',
           ''failed to lookup function called '' @ [CHR 0x27] @ ''entry'' @ [CHR 0x27]}"
    using create_call_error [of tc c s e s1] c r by simp
  then obtain msg where e: "e = value_error msg"
    and msg: "msg \<in> {''failed to compile C++'', ''failed to create jit'', ''failed to add IR module'',
               ''failed to lookup function called '' @ [CHR 0x27] @ ''entry'' @ [CHR 0x27]}"
    by blast
  have same: "kernels s1 = kernels s"
    using create_call_result(2) [OF c] r by simp
  have cnt: "last_identifier s1 = last_identifier s + 1"
    by (rule create_call_result(1) [OF c])
  have next_call: "\<exists>Entry s2.
        create_call tc c' s1 = (Inr (last_identifier s + 1), s2)
      \<and> (\<forall>before rs.
            Suc (length before) < 2 ^ 64 \<and> creates tc before init_statics = (rs, s) \<longrightarrow>
              get s1 (last_identifier s + 1) = None
            \<and> (\<forall>j\<le>length before. allocated tc (before @ [c]) j \<noteq> last_identifier s + 1)
            \<and> get s2 (last_identifier s + 1) =
                Some (CpuKernel_new (last_identifier s + 1) (map snd (py_outs c')) Entry))"
    if acc: "toolchain_accepts tc c' s1" for c'
  proof -
    obtain k s2 where c': "create_call tc c' s1 = (Inr k, s2)"
      using acc accepts_iff by blast
    obtain Entry where k: "k = last_identifier s1"
      and ins: "kernels s2 =
        try_emplace (kernels s1) k (CpuKernel_new k (map snd (py_outs c')) Entry)"
      using create_call_result(3) [OF c'] by blast
    have k': "k = last_identifier s + 1" using k cnt by simp
    have fresh: "get s1 k = None
        \<and> (\<forall>j\<le>length before. allocated tc (before @ [c]) j \<noteq> k)
        \<and> get s2 k = Some (CpuKernel_new k (map snd (py_outs c')) Entry)"
      if bound: "Suc (length before) < 2 ^ 64"
        and run: "creates tc before init_statics = (rs, s)" for before rs
    proof -
      have run': "creates tc (before @ [c]) init_statics = (rs @ [r], s1)"
        by (rule creates_snoc [OF run c])
      have len: "length (before @ [c]) < 2 ^ 64" using bound by simp
      have none: "kernels s1 (last_identifier s1) = None"
        by (rule creates_fresh [OF len run'])
      then have g1: "get s1 k = None" using k by (simp add: get_def)
      have g2: "get s2 k = Some (CpuKernel_new k (map snd (py_outs c')) Entry)"
        using none k ins by (simp add: get_def try_emplace_fresh)
      have cnt_s: "last_identifier s = 1 + of_nat (length before)"
        using creates_counter [of tc before init_statics] run by (simp add: init_statics_def)
      have kn: "k = 1 + of_nat (Suc (length before))"
        using k' cnt_s by simp
      have distinct: "allocated tc (before @ [c]) j \<noteq> k" if j: "j \<le> length before" for j
      proof -
        have a: "allocated tc (before @ [c]) j = 1 + of_nat j"
          using j by (simp add: allocated_def creates_allocated min_def)
        have "j < Suc (length before)" using j by simp
        then have "(of_nat j :: 64 word) \<noteq> of_nat (Suc (length before))"
          using bound by (rule of_nat_distinct)
        then show ?thesis unfolding a kn by simp
      qed
      show ?thesis using g1 distinct g2 by blast
    qed
    show ?thesis
      apply (rule exI [of _ Entry], rule exI [of _ s2])
      using c' k' fresh by blast
  qed
  have gets: "\<forall>k. get s1 k = get s k" by (simp add: get_def same)
  show ?thesis
    apply (rule exI [of _ msg], rule exI [of _ s1])
    apply (intro conjI)
    subgoal using c r e by simp
    subgoal by (rule msg)
    subgoal by (rule same)
    subgoal by (rule gets)
    subgoal by (rule cnt)
    subgoal using next_call by blast
    done
qed

theorem failed_create_leaves_registry_witness:
  "\<not> toolchain_accepts demo_toolchain broken_call demo_statics
   \<and> create_call demo_toolchain broken_call demo_statics =
       (Inl (value_error ''failed to compile C++''), demo_statics\<lparr>last_identifier := 5\<rparr>)
   \<and> kernels (demo_statics\<lparr>last_identifier := 5\<rparr>) = kernels demo_statics
   \<and> toolchain_accepts demo_toolchain copy_call (demo_statics\<lparr>last_identifier := 5\<rparr>)
   \<and> get (demo_statics\<lparr>last_identifier := 5\<rparr>) 5 = None
   \<and> (\<exists>Entry s2.
         create_call demo_toolchain copy_call (demo_statics\<lparr>last_identifier := 5\<rparr>) = (Inr 5, s2)
         \<and> get s2 5 = Some (CpuKernel_new 5 [[4]] Entry))"
proof -
  let ?s1 = "demo_statics\<lparr>last_identifier := 5\<rparr>"
  have l: "last_identifier demo_statics = 4"
    unfolding demo_statics_def demo_run by simp
  have f: "create_call demo_toolchain broken_call demo_statics =
     (Inl (value_error ''failed to compile C++''), ?s1)"
    by (simp add: create_broken l)
  have nacc: "\<not> toolchain_accepts demo_toolchain broken_call demo_statics"
    by (simp add: accepts_iff f)
  have acc: "toolchain_accepts demo_toolchain copy_call ?s1"
    by (simp add: accepts_iff create_copy)
  have bound: "Suc (length [copy_call, broken_call, split_call]) < (2 :: nat) ^ 64" by simp
  have run: "creates demo_toolchain [copy_call, broken_call, split_call] init_statics =
      ([Inr 1, Inl (value_error ''failed to compile C++''), Inr 3], demo_statics)"
    unfolding demo_statics_def demo_run by simp
  have shapes: "map snd (py_outs copy_call) = [[4]]" by (simp add: copy_call_def)
  obtain msg s1 where c: "create_call demo_toolchain broken_call demo_statics = (Inl (value_error msg), s1)"
    and same: "kernels s1 = kernels demo_statics"
    and nxt: "\<forall>c'. toolchain_accepts demo_toolchain c' s1 \<longrightarrow>
          (\<exists>Entry s2.
              create_call demo_toolchain c' s1 = (Inr (last_identifier demo_statics + 1), s2)
            \<and> (\<forall>before rs.
                  Suc (length before) < 2 ^ 64
                  \<and> creates demo_toolchain before init_statics = (rs, demo_statics) \<longrightarrow>
                    get s1 (last_identifier demo_statics + 1) = None
                  \<and> (\<forall>j\<le>length before.
                        allocated demo_toolchain (before @ [broken_call]) j
                          \<noteq> last_identifier demo_statics + 1)
                  \<and> get s2 (last_identifier demo_statics + 1) =
                      Some (CpuKernel_new (last_identifier demo_statics + 1)
                              (map snd (py_outs c')) Entry)))"
    using failed_create_leaves_registry [OF nacc] by blast
  have s1: "s1 = ?s1" using c f by simp
  obtain Entry s2 where
    c': "create_call demo_toolchain copy_call ?s1 = (Inr (last_identifier demo_statics + 1), s2)"
    and fr: "\<forall>before rs.
                  Suc (length before) < 2 ^ 64
                  \<and> creates demo_toolchain before init_statics = (rs, demo_statics) \<longrightarrow>
                    get ?s1 (last_identifier demo_statics + 1) = None
                  \<and> (\<forall>j\<le>length before.
                        allocated demo_toolchain (before @ [broken_call]) j
                          \<noteq> last_identifier demo_statics + 1)
                  \<and> get s2 (last_identifier demo_statics + 1) =
                      Some (CpuKernel_new (last_identifier demo_statics + 1)
                              (map snd (py_outs copy_call)) Entry)"
    using nxt acc unfolding s1 by blast
  have g: "get ?s1 (last_identifier demo_statics + 1) = None"
    and g2: "get s2 (last_identifier demo_statics + 1) =
        Some (CpuKernel_new (last_identifier demo_statics + 1) (map snd (py_outs copy_call)) Entry)"
    using fr [rule_format, of "[copy_call, broken_call, split_call]"
        "[Inr 1, Inl (value_error ''failed to compile C++''), Inr 3]"] bound run
    by blast+
  have k: "kernels ?s1 = kernels demo_statics" using same s1 by simp
  have five: "last_identifier demo_statics + 1 = 5" by (simp add: l)
  show ?thesis
    using nacc f k acc g c' g2 unfolding five shapes by blast
qed

text \<open>
  C3 as stated, for every failed call, fails in its last part: the counter wraps. After
  the copy kernel and \<open>2\<^sup>6\<^sup>4 - 2\<close> rejected sources the counter is at 0; one more rejected
  source throws and leaves the registry as it was, with the counter at 1; the
  two-output kernel, a valid call, then returns identifier 1, under which the copy
  kernel is registered, and \<^verbatim>\<open>get\<close> still returns the copy kernel's record.
\<close>

theorem failed_create_then_registered_identifier:
  "snd (creates demo_toolchain (copy_call # replicate (2 ^ 64 - 2) broken_call) init_statics) =
     wrapped_statics 0
   \<and> create_call demo_toolchain broken_call (wrapped_statics 0) =
       (Inl (value_error ''failed to compile C++''), wrapped_statics 1)
   \<and> toolchain_accepts demo_toolchain split_call (wrapped_statics 1)
   \<and> fst (create_call demo_toolchain split_call (wrapped_statics 1)) = Inr 1
   \<and> get (wrapped_statics 1) 1 = Some (CpuKernel_new 1 [[4]] 4096)
   \<and> get (snd (create_call demo_toolchain split_call (wrapped_statics 1))) 1 =
       Some (CpuKernel_new 1 [[4]] 4096)
   \<and> map snd (py_outs split_call) = [[2, 3], []]"
proof -
  have a: "(2 + of_nat (2 ^ 64 - 2) :: 64 word) = 0" by simp
  have run: "snd (creates demo_toolchain (copy_call # replicate (2 ^ 64 - 2) broken_call)
      init_statics) = wrapped_statics 0"
    by (simp only: wrapped_run a)
  have f: "create_call demo_toolchain broken_call (wrapped_statics 0) =
       (Inl (value_error ''failed to compile C++''), wrapped_statics 1)"
    by (simp add: create_broken wrapped_statics_def)
  have acc: "toolchain_accepts demo_toolchain split_call (wrapped_statics 1)"
    by (simp add: accepts_iff create_split)
  have r: "fst (create_call demo_toolchain split_call (wrapped_statics 1)) = Inr 1"
    by (simp add: create_split wrapped_statics_def)
  have g1: "get (wrapped_statics 1) 1 = Some (CpuKernel_new 1 [[4]] 4096)"
    by (simp add: get_def wrapped_statics_def)
  have g2: "get (snd (create_call demo_toolchain split_call (wrapped_statics 1))) 1 =
       Some (CpuKernel_new 1 [[4]] 4096)"
    by (simp add: create_split get_def wrapped_statics_def try_emplace_def)
  have shapes: "map snd (py_outs split_call) = [[2, 3], []]"
    by (simp add: split_call_def)
  show ?thesis
    by (intro conjI run f acc r g1 g2 shapes)
qed

subsection \<open>C4: registration round trip\<close>

text \<open>
  C4 (registration round trip), with the bound the counter's width forces. When fewer
  than \<open>2\<^sup>6\<^sup>4\<close> calls came before it, a call of \<^verbatim>\<open>create\<close> that returns \<open>k\<close> has
  stored a record under \<open>k\<close>, and after any later calls \<^verbatim>\<open>get\<close> still returns that
  record: its output shapes are those supplied to the call and its identifier is \<open>k\<close>.
\<close>

theorem create_get_round_trip:
  assumes "length before < 2 ^ 64"
    and "creates tc before init_statics = (rs, s)"
    and "create_call tc c s = (Inr k, s1)"
    and "creates tc later s1 = (rs', s2)"
  shows "\<exists>r. get s2 k = Some r \<and> out_shapes r = map snd (py_outs c) \<and> identifier r = k"
proof -
  have fresh: "kernels s (last_identifier s) = None"
    by (rule creates_fresh [OF assms(1,2)])
  obtain Entry where k: "k = last_identifier s"
    and ins: "kernels s1 = try_emplace (kernels s) k (CpuKernel_new k (map snd (py_outs c)) Entry)"
    using create_call_result(3) [OF assms(3)] by blast
  have "kernels s1 k = Some (CpuKernel_new k (map snd (py_outs c)) Entry)"
    using fresh k ins by (simp add: try_emplace_fresh)
  then have "kernels (snd (creates tc later s1)) k = Some (CpuKernel_new k (map snd (py_outs c)) Entry)"
    by (rule creates_keeps)
  then have "get s2 k = Some (CpuKernel_new k (map snd (py_outs c)) Entry)"
    using assms(4) by (simp add: get_def)
  then show ?thesis by (simp add: CpuKernel_new_def)
qed

theorem create_get_round_trip_witness:
  "length [copy_call, broken_call] < (2 :: nat) ^ 64
   \<and> create_call demo_toolchain split_call
        (snd (creates demo_toolchain [copy_call, broken_call] init_statics)) = (Inr 3, demo_statics)
   \<and> (\<exists>r. get (snd (creates demo_toolchain [broken_call, copy_call] demo_statics)) 3 = Some r
          \<and> out_shapes r = [[2, 3], []] \<and> identifier r = 3)"
proof -
  have len: "length [copy_call, broken_call] < (2 :: nat) ^ 64" by simp
  have run: "creates demo_toolchain [copy_call, broken_call] init_statics =
      (fst (creates demo_toolchain [copy_call, broken_call] init_statics),
       snd (creates demo_toolchain [copy_call, broken_call] init_statics))"
    by simp
  have c: "create_call demo_toolchain split_call
        (snd (creates demo_toolchain [copy_call, broken_call] init_statics)) = (Inr 3, demo_statics)"
    unfolding demo_statics_def
    by (simp add: create_copy create_broken create_split init_statics_def try_emplace_def)
  have later: "creates demo_toolchain [broken_call, copy_call] demo_statics =
      (fst (creates demo_toolchain [broken_call, copy_call] demo_statics),
       snd (creates demo_toolchain [broken_call, copy_call] demo_statics))"
    by simp
  show ?thesis
    using create_get_round_trip [OF len run c later] len c by (simp add: split_call_def)
qed

text \<open>
  C4 as stated, for every call, fails: the counter wraps and \<^verbatim>\<open>try_emplace\<close> does not
  replace a record. After the copy kernel and \<open>2\<^sup>6\<^sup>4 - 1\<close> rejected sources the counter is
  back at 1; the two-output kernel is then created under identifier 1, and \<^verbatim>\<open>get\<close> still
  returns the copy kernel's record with its single output shape.
\<close>

theorem create_get_reused_identifier:
  "fst (create_call demo_toolchain split_call
          (snd (creates demo_toolchain (copy_call # replicate (2 ^ 64 - 1) broken_call)
                  init_statics))) = Inr 1
   \<and> map_option out_shapes
        (get (snd (create_call demo_toolchain split_call
                (snd (creates demo_toolchain (copy_call # replicate (2 ^ 64 - 1) broken_call)
                        init_statics)))) 1) = Some [[4]]
   \<and> map snd (py_outs split_call) = [[2, 3], []]"
proof -
  have a: "(2 + of_nat (2 ^ 64 - 1) :: 64 word) = 1" by simp
  have s: "snd (creates demo_toolchain (copy_call # replicate (2 ^ 64 - 1) broken_call) init_statics) =
      \<lparr>kernels = [1 \<mapsto> CpuKernel_new 1 [[4]] 4096], last_identifier = 1,
       DL = Some ''x86_64'', JIT = Some ()\<rparr>"
    by (simp only: reuse_run snd_conv a)
  have shapes: "map snd (py_outs split_call) = [[2, 3], []]"
    by (simp add: split_call_def)
  show ?thesis
    unfolding s shapes
    by (simp add: create_split try_emplace_def get_def CpuKernel_new_def)
qed

subsection \<open>C5: source synthesis\<close>

text \<open>
  C5 (source synthesis). For an outputs list of length \<open>m\<close> and an inputs list of length
  \<open>n\<close>, the text \<^verbatim>\<open>create\<close> writes is the translation unit of the specification: the
  two include lines, the user's source, and the function \<^verbatim>\<open>entry\<close> with exactly \<open>m + n\<close>
  reinterpretation statements (statement \<open>i\<close> binds \<open>out_i\<close> as a mutable reference to
  output \<open>i\<close>, statement \<open>m + i\<close> binds \<open>in_i\<close> as a const reference to input \<open>i\<close>)
  followed by one call whose \<open>m + n\<close> arguments are \<open>out_0\<close>, ..., \<open>out_(m-1)\<close>,
  \<open>in_0\<close>, ..., \<open>in_(n-1)\<close> in this order.
\<close>

theorem create_input_synthesis:
  "create_input source (map snd outs) (map fst outs) (map snd ins) (map fst ins) =
     Some (spec_unit source outs ins)
   \<and> length (spec_stmts outs ins) = length outs + length ins
   \<and> (\<forall>i<length outs. spec_stmts outs ins ! i = spec_out_stmt i (outs ! i))
   \<and> (\<forall>i<length ins. spec_stmts outs ins ! (length outs + i) = spec_in_stmt i (ins ! i))
   \<and> length (spec_args (length outs) (length ins)) = length outs + length ins
   \<and> (\<forall>i<length outs. spec_args (length outs) (length ins) ! i = ''out_'' @ decimal i)
   \<and> (\<forall>i<length ins. spec_args (length outs) (length ins) ! (length outs + i) = ''in_'' @ decimal i)"
proof -
  have stmts: "spec_stmts outs ins =
      map (\<lambda>k. spec_out_stmt k (outs ! k)) [0..<length outs]
        @ map (\<lambda>k. spec_in_stmt k (ins ! k)) [0..<length ins]"
    by (simp add: spec_stmts_def enumerate_map_nth)
  show ?thesis
    by (simp add: create_input_eq stmts spec_args_def nth_append)
qed

theorem create_input_synthesis_witness:
  \<open>create_input ''void myfn(auto& a, auto& b, const auto& c) { a = c; }''
     [[2, 3], []] [''float'', ''double''] [[2, 3]] [''float''] =
   Some (''#include <cstdint>\<newline>#include <enzyme_tensor>\<newline>''
     @ ''void myfn(auto& a, auto& b, const auto& c) { a = c; }\<newline>''
     @ ''extern "C" void entry(void** __restrict__ outs, void** __restrict__ ins) {\<newline>''
     @ '' enzyme::tensor<float, 2, 3>& out_0 = *(enzyme::tensor<float, 2, 3>*)outs[0];\<newline>''
     @ '' enzyme::tensor<double>& out_1 = *(enzyme::tensor<double>*)outs[1];\<newline>''
     @ '' const enzyme::tensor<float, 2, 3>& in_0 = *(const enzyme::tensor<float, 2, 3>*)ins[0];\<newline>''
     @ ''  myfn(out_0, out_1, in_0);\<newline>''
     @ ''}\<newline>'')\<close>
  using create_input_synthesis [of "''void myfn(auto& a, auto& b, const auto& c) { a = c; }''"
      "[(''float'', [2, 3]), (''double'', [])]" "[(''float'', [2, 3])]"]
  by (simp add: unit_eval)

subsection \<open>C6: an unknown identifier is fatal\<close>

text \<open>
  C6 (unknown-identifier fatality). When \<^verbatim>\<open>get\<close> finds no kernel under the identifier
  read, \<^verbatim>\<open>CpuCallback\<close> ends in \<^verbatim>\<open>report_fatal_error\<close> and calls no entry address; this is
  the case in particular for every identifier that no call of \<^verbatim>\<open>create\<close> in the run of
  the process has returned. Conversely an entry address is called only for an
  identifier that \<^verbatim>\<open>get\<close> finds.
\<close>

theorem dispatch_unknown_fatal:
  "(get s (mem (mem ins)) = None \<longrightarrow>
      CpuCallback s mem out ins = report_fatal_error ''couldn't find enzyme kernel'')
   \<and> (creates tc cs init_statics = (rs, s) \<and> Inr (mem (mem ins)) \<notin> set rs \<longrightarrow>
        get s (mem (mem ins)) = None
        \<and> CpuCallback s mem out ins = report_fatal_error ''couldn't find enzyme kernel'')
   \<and> (\<forall>a outs ins'. CpuCallback s mem out ins = native_call a outs ins' \<longrightarrow>
        get s (mem (mem ins)) \<noteq> None)"
proof -
  have fatal: "get s (mem (mem ins)) = None \<Longrightarrow>
      CpuCallback s mem out ins = report_fatal_error ''couldn't find enzyme kernel''"
    by (simp add: CpuCallback_def)
  have unknown: "get s (mem (mem ins)) = None"
    if run: "creates tc cs init_statics = (rs, s)" and new: "Inr (mem (mem ins)) \<notin> set rs"
  proof -
    have "dom (kernels s) = {k. Inr k \<in> set rs}"
      using creates_dom [of tc cs init_statics] run by (simp add: init_statics_def)
    then have "mem (mem ins) \<notin> dom (kernels s)" using new by simp
    then show ?thesis by (simp add: get_def domIff)
  qed
  have called: "get s (mem (mem ins)) \<noteq> None"
    if "CpuCallback s mem out ins = native_call a outs ins'" for a outs ins'
    using that by (auto simp: CpuCallback_def split: option.splits)
  show ?thesis using fatal unknown called by auto
qed

theorem dispatch_unknown_fatal_witness:
  "CpuCallback demo_statics (demo_mem 2) 0x3000 0x1000 =
     report_fatal_error ''couldn't find enzyme kernel''
   \<and> CpuCallback demo_statics (demo_mem 7) 0x3000 0x1000 =
     report_fatal_error ''couldn't find enzyme kernel''"
proof -
  have g: "get demo_statics (demo_mem 2 (demo_mem 2 0x1000)) = None"
    by (simp add: demo_mem_def demo_get)
  have run: "creates demo_toolchain [copy_call, broken_call, split_call] init_statics =
      ([Inr 1, Inl (value_error ''failed to compile C++''), Inr 3], demo_statics)"
    unfolding demo_statics_def demo_run by simp
  have new: "Inr (demo_mem 7 (demo_mem 7 0x1000)) \<notin>
      set [Inr 1, Inl (value_error ''failed to compile C++''), Inr (3 :: int64)]"
    by (simp add: demo_mem_def)
  show ?thesis
    using dispatch_unknown_fatal [where s = demo_statics and mem = "demo_mem 2"
        and ins = "0x1000" and out = "0x3000"] g
      dispatch_unknown_fatal [where tc = demo_toolchain
        and cs = "[copy_call, broken_call, split_call]"
        and rs = "[Inr 1, Inl (value_error ''failed to compile C++''), Inr 3]"
        and s = demo_statics and mem = "demo_mem 7" and ins = "0x1000" and out = "0x3000"]
      run new
    by auto
qed

subsection \<open>C7: failure to build the just-in-time environment\<close>

text \<open>
  C7 (failure of the execution engine's construction), as the code has it. A call that
  throws \<^verbatim>\<open>failed to create jit\<close> found \<^verbatim>\<open>JIT\<close> null and leaves it null, and leaves the
  registry unchanged; the failure is recorded nowhere. So the next call whose text
  compiles runs the builder again, on its own module, and throws
  \<^verbatim>\<open>failed to create jit\<close> exactly when the builder fails for that module. The same
  holds after any further calls for as long as \<^verbatim>\<open>JIT\<close> is still null. Once a call has
  set \<^verbatim>\<open>JIT\<close>, a call no longer depends on the builder and does not throw
  \<^verbatim>\<open>failed to create jit\<close>. At every later point a call whose external steps succeed
  returns an identifier and leaves \<^verbatim>\<open>JIT\<close> set.
\<close>

theorem jit_failure_is_retried:
  assumes "create_call tc c s = (Inl (value_error ''failed to create jit''), s1)"
    and "creates tc later s1 = (rs, s2)"
  shows "JIT s = None \<and> JIT s1 = None \<and> kernels s1 = kernels s
    \<and> (\<forall>c' input module r s3.
          create_input (py_source c') (map snd (py_outs c')) (map fst (py_outs c'))
            (map snd (py_ins c')) (map fst (py_ins c')) = Some input
          \<and> GetLLVMFromJob tc ''/enzyme_call/source.cpp'' input True (py_argv c') = Some module
          \<and> create_call tc c' s1 = (r, s3) \<longrightarrow>
          (r = Inl (value_error ''failed to create jit'')) = (LLJITBuilder_create tc module = None))
    \<and> (\<forall>c' input module r s3.
          JIT s2 = None
          \<and> create_input (py_source c') (map snd (py_outs c')) (map fst (py_outs c'))
              (map snd (py_ins c')) (map fst (py_ins c')) = Some input
          \<and> GetLLVMFromJob tc ''/enzyme_call/source.cpp'' input True (py_argv c') = Some module
          \<and> create_call tc c' s2 = (r, s3) \<longrightarrow>
          (r = Inl (value_error ''failed to create jit'')) = (LLJITBuilder_create tc module = None))
    \<and> (\<forall>c' f.
          JIT s2 \<noteq> None \<longrightarrow>
            create_call (tc\<lparr>LLJITBuilder_create := f\<rparr>) c' s2 = create_call tc c' s2
          \<and> fst (create_call tc c' s2) \<noteq> Inl (value_error ''failed to create jit''))
    \<and> (\<forall>c'. toolchain_accepts tc c' s2 \<longrightarrow>
          (\<exists>s3. create_call tc c' s2 = (Inr (last_identifier s2), s3) \<and> JIT s3 \<noteq> None))"
proof -
  have jit: "JIT s = None \<and> JIT s1 = None"
    using create_call_jit_kept [OF assms(1)] by simp
  have same: "kernels s1 = kernels s"
    using create_call_result(2) [OF assms(1)] by simp
  have again: "(r = Inl (value_error ''failed to create jit'')) = (LLJITBuilder_create tc module = None)"
    if "JIT s' = None"
      and "create_input (py_source c') (map snd (py_outs c')) (map fst (py_outs c'))
            (map snd (py_ins c')) (map fst (py_ins c')) = Some input"
      and "GetLLVMFromJob tc ''/enzyme_call/source.cpp'' input True (py_argv c') = Some module"
      and "create_call tc c' s' = (r, s3)" for s' c' input module r s3
    by (rule create_call_jit_failure [OF that(4) that(2) that(3) that(1)])
  have unused: "create_call (tc\<lparr>LLJITBuilder_create := f\<rparr>) c' s2 = create_call tc c' s2
      \<and> fst (create_call tc c' s2) \<noteq> Inl (value_error ''failed to create jit'')"
    if set: "JIT s2 \<noteq> None" for c' f
  proof -
    obtain r s3 where c': "create_call tc c' s2 = (r, s3)"
      by (cases "create_call tc c' s2")
    have "r \<noteq> Inl (value_error ''failed to create jit'')"
      using create_call_jit_kept [OF c'] set by auto
    then show ?thesis
      using create_call_builder_unused [OF set, where tc = tc and f = f and c = c'] c'
      by simp
  qed
  have accepted: "\<exists>s3. create_call tc c' s2 = (Inr (last_identifier s2), s3) \<and> JIT s3 \<noteq> None"
    if acc: "toolchain_accepts tc c' s2" for c'
  proof -
    obtain k s3 where c': "create_call tc c' s2 = (Inr k, s3)"
      using acc accepts_iff by blast
    have "k = last_identifier s2" using create_call_result(3) [OF c'] by simp
    moreover have "JIT s3 \<noteq> None" using create_call_jit_kept [OF c'] by simp
    ultimately show ?thesis using c' by simp
  qed
  show ?thesis
    apply (intro conjI allI impI)
    subgoal using jit by simp
    subgoal using jit by simp
    subgoal by (rule same)
    subgoal using again jit by blast
    subgoal using again by blast
    subgoal using unused by blast
    subgoal using unused by blast
    subgoal by (erule accepted)
    done
qed

theorem jit_failure_is_retried_witness:
  "fst (create_call demo_toolchain foreign_call init_statics) =
     Inl (value_error ''failed to create jit'')
   \<and> JIT (snd (create_call demo_toolchain foreign_call init_statics)) = None
   \<and> fst (creates demo_toolchain [copy_call]
            (snd (create_call demo_toolchain foreign_call init_statics))) = [Inr 2]
   \<and> toolchain_accepts demo_toolchain foreign_call
        (snd (creates demo_toolchain [copy_call]
               (snd (create_call demo_toolchain foreign_call init_statics))))
   \<and> fst (create_call demo_toolchain foreign_call
            (snd (creates demo_toolchain [copy_call]
                   (snd (create_call demo_toolchain foreign_call init_statics))))) = Inr 3"
proof -
  let ?s1 = "init_statics\<lparr>last_identifier := 2, DL := Some ''nvptx64''\<rparr> :: (string, unit) statics"
  let ?s2 = "snd (creates demo_toolchain [copy_call] ?s1)"
  have f: "create_call demo_toolchain foreign_call init_statics =
     (Inl (value_error ''failed to create jit''), ?s1)"
    by (simp add: create_foreign init_statics_def)
  have later: "creates demo_toolchain [copy_call] ?s1 = ([Inr 2], ?s2)"
    by (simp add: create_copy)
  have set: "JIT ?s2 = Some ()" and l: "last_identifier ?s2 = 3"
    by (simp_all add: create_copy)
  have acc: "toolchain_accepts demo_toolchain foreign_call ?s2"
    using create_foreign_set [OF set] by (simp add: accepts_iff del: creates.simps)
  note th = jit_failure_is_retried [OF f later]
  have j: "JIT ?s1 = None" using th by blast
  have "\<forall>c'. toolchain_accepts demo_toolchain c' ?s2 \<longrightarrow>
          (\<exists>s3. create_call demo_toolchain c' ?s2 = (Inr (last_identifier ?s2), s3) \<and> JIT s3 \<noteq> None)"
    using th by blast
  then obtain s3 where "create_call demo_toolchain foreign_call ?s2 = (Inr (last_identifier ?s2), s3)"
    using acc by blast
  then have r: "fst (create_call demo_toolchain foreign_call ?s2) = Inr 3"
    unfolding l by simp
  have lr: "fst (creates demo_toolchain [copy_call] ?s1) = [Inr 2]"
    by (simp add: create_copy)
  show ?thesis
    unfolding f fst_conv snd_conv using j lr acc r by blast
qed

text \<open>
  C7 as stated, that no later call can ever succeed, fails: the first call compiles for
  a target the builder has no environment for and throws; the second call compiles for
  the host, the builder succeeds, and identifier 2 is returned.
\<close>

theorem jit_failure_not_permanent:
  "fst (creates demo_toolchain [foreign_call, copy_call] init_statics) =
     [Inl (value_error ''failed to create jit''), Inr 2]"
  by (simp add: create_foreign create_copy init_statics_def)

subsection \<open>C8: a kernel without outputs\<close>

text \<open>
  C8 (zero-output edge case). For a kernel whose list of output shapes is empty,
  \<^verbatim>\<open>call\<close> passes the address of the pointer it was given, as it does for a kernel with
  one output; the pointer is read as an array of per-output pointers exactly when the
  kernel declares more than one output.
\<close>

theorem call_zero_outputs:
  "(out_shapes k = [] \<longrightarrow> call k out ins = native_call (addr k) (address_of out) ins)
   \<and> (length (out_shapes k) = 1 \<longrightarrow> call k out ins = native_call (addr k) (address_of out) ins)
   \<and> ((\<exists>a ins'. call k out ins = native_call a (reinterpret_cast out) ins')
        = (1 < length (out_shapes k)))"
  by (auto simp: call_def)

theorem call_zero_outputs_witness:
  "call (CpuKernel_new 5 [] 4096) 0x3000 0x1008 = native_call 4096 (address_of 0x3000) 0x1008"
  using call_zero_outputs [of "CpuKernel_new 5 [] 4096" "0x3000" "0x1008"]
  by (simp add: CpuKernel_new_def)

subsection \<open>The name of the function called\<close>

text \<open>
  What C9 says about this program: whatever the user's source is, the text \<^verbatim>\<open>create\<close>
  writes is the two include lines, the source, and an \<^verbatim>\<open>entry\<close> function that does not
  depend on the source and whose only call is to the literal name \<^verbatim>\<open>myfn\<close>, with the
  output and then the input references as arguments. The conclusion C9 draws from it,
  which user sources compile, is a statement about the C++ compiler behind
  \<^verbatim>\<open>GetLLVMFromJob\<close>; the compiler is a parameter here and that conclusion is not stated.
\<close>

theorem entry_calls_myfn:
  \<open>\<exists>decls args.
     (\<forall>source.
        create_input source (map snd outs) (map fst outs) (map snd ins) (map fst ins) =
          Some (''#include <cstdint>\<newline>#include <enzyme_tensor>\<newline>'' @ source @ ''\<newline>''
            @ ''extern "C" void entry(void** __restrict__ outs, void** __restrict__ ins) {\<newline>''
            @ decls @ ''  myfn('' @ args @ '');\<newline>}\<newline>''))
     \<and> decls = concat (spec_stmts outs ins)
     \<and> args = spec_join '', '' (spec_args (length outs) (length ins))\<close>
  by (simp add: create_input_eq spec_unit_def)

theorem entry_calls_myfn_witness:
  \<open>create_input ''int main() { return 0; }'' [[4]] [''float''] [] [] =
   Some (''#include <cstdint>\<newline>#include <enzyme_tensor>\<newline>''
     @ ''int main() { return 0; }\<newline>''
     @ ''extern "C" void entry(void** __restrict__ outs, void** __restrict__ ins) {\<newline>''
     @ '' enzyme::tensor<float, 4>& out_0 = *(enzyme::tensor<float, 4>*)outs[0];\<newline>''
     @ ''  myfn(out_0);\<newline>''
     @ ''}\<newline>'')\<close>
proof -
  obtain decls args where
    u: \<open>\<And>source. create_input source (map snd [(''float'', [4 :: int64])])
         (map fst [(''float'', [4 :: int64])])
         (map snd ([] :: (string \<times> int64 list) list))
         (map fst ([] :: (string \<times> int64 list) list)) =
          Some (''#include <cstdint>\<newline>#include <enzyme_tensor>\<newline>'' @ source @ ''\<newline>''
            @ ''extern "C" void entry(void** __restrict__ outs, void** __restrict__ ins) {\<newline>''
            @ decls @ ''  myfn('' @ args @ '');\<newline>}\<newline>'')\<close>
    and d: "decls = concat (spec_stmts [(''float'', [4])] [])"
    and a: "args = spec_join '', '' (spec_args (length [(''float'', [4::int64])]) (length ([] :: (string \<times> int64 list) list)))"
    using entry_calls_myfn [of "[(''float'', [4 :: int64])]" "[] :: (string \<times> int64 list) list"]
    by blast
  show ?thesis
    using u [of "''int main() { return 0; }''"] by (simp add: d a unit_eval)
qed

text \<open>
  What the code adds to it: a call of \<^verbatim>\<open>create\<close> returns an identifier only if the
  compiler returned a module for this text, in which \<^verbatim>\<open>entry\<close> calls \<^verbatim>\<open>myfn\<close>.
\<close>

theorem create_compiles_unit_calling_myfn:
  assumes "create_call tc c s = (Inr k, s')"
  shows \<open>\<exists>module.
     GetLLVMFromJob tc ''/enzyme_call/source.cpp''
       (''#include <cstdint>\<newline>#include <enzyme_tensor>\<newline>'' @ py_source c @ ''\<newline>''
          @ ''extern "C" void entry(void** __restrict__ outs, void** __restrict__ ins) {\<newline>''
          @ concat (spec_stmts (py_outs c) (py_ins c))
          @ ''  myfn('' @ spec_join '', '' (spec_args (length (py_outs c)) (length (py_ins c)))
          @ '');\<newline>}\<newline>'')
       True (py_argv c) = Some module\<close>
proof -
  have "GetLLVMFromJob tc ''/enzyme_call/source.cpp''
          (spec_unit (py_source c) (py_outs c) (py_ins c)) True (py_argv c) \<noteq> None"
    using assms
    by (auto simp: create_call_def create_enzyme_cpu_kernel_def create_def create_input_eq Let_def
        split: option.splits)
  then show ?thesis by (simp add: spec_unit_def)
qed

theorem create_compiles_unit_calling_myfn_witness:
  \<open>\<exists>module.
     GetLLVMFromJob demo_toolchain ''/enzyme_call/source.cpp''
       (''#include <cstdint>\<newline>#include <enzyme_tensor>\<newline>''
          @ ''void myfn(auto& o, const auto& i) { o = i; }\<newline>''
          @ ''extern "C" void entry(void** __restrict__ outs, void** __restrict__ ins) {\<newline>''
          @ '' enzyme::tensor<float, 4>& out_0 = *(enzyme::tensor<float, 4>*)outs[0];\<newline>''
          @ '' const enzyme::tensor<float, 4>& in_0 = *(const enzyme::tensor<float, 4>*)ins[0];\<newline>''
          @ ''  myfn(out_0, in_0);\<newline>}\<newline>'')
       True ''x86_64'' = Some module\<close>
proof -
  have c: "create_call demo_toolchain copy_call init_statics =
      (Inr 1, snd (create_call demo_toolchain copy_call init_statics))"
    by (simp add: create_copy init_statics_def)
  show ?thesis
    using create_compiles_unit_calling_myfn [OF c] by (simp add: copy_call_def unit_eval)
qed

end
